theory Spec2Isabelle
  imports Complex_Main
begin

section \<open>VersusBank game runtime: shallow embedding\<close>

text \<open>
  The runtime's numbers are JavaScript numbers. They are modelled as the real numbers
  (\<^typ>\<open>real\<close>), first with exact arithmetic: the algorithms as written. Where a
  property depends on how the arithmetic rounds, the code is modelled a second time
  with every operation rounded to binary64 (functions with the suffix \<open>64\<close>). Counters
  that the code only ever increments from zero are natural numbers.
\<close>

subsection \<open>Game: the fixed-timestep loop\<close>

text \<open>
  The fields of class \<open>Game\<close> that \<open>gameLoop\<close> and the helpers it calls read or
  write. \<open>frameTime\<close> is \<open>performanceMetrics.frameTime\<close>. The field \<open>updateCalls\<close> is
  not in the source: it counts the invocations of \<open>update\<close>, which the source makes
  observable only through the input handler and the scene manager.
\<close>

record Game =
  isRunning :: bool
  isPaused :: bool
  lastTime :: real
  accumulator :: real
  frameCount :: nat
  fps :: nat
  fpsUpdateTime :: real
  fpsFrameCount :: nat
  frameTime :: real
  updateCalls :: nat

definition fixedTimeStep :: real where
  "fixedTimeStep = 1000 / 60"

definition maxDeltaTime :: real where
  "maxDeltaTime = 250"

text \<open>
  \<open>update(deltaTime)\<close> returns at once when the game is paused; otherwise it forwards
  to the input handler and the scene manager and records its own duration. None of
  that touches the timing fields, so the model records the call and nothing else.
\<close>

definition update :: "Game \<Rightarrow> real \<Rightarrow> Game" where
  "update g deltaTime = g\<lparr>updateCalls := Suc (updateCalls g)\<rparr>"


definition updatePerformanceMetrics :: "Game \<Rightarrow> real \<Rightarrow> Game" where
  "updatePerformanceMetrics g deltaTime =
     g\<lparr>frameTime := deltaTime, frameCount := Suc (frameCount g)\<rparr>"

text \<open>
  The draining loop of \<open>gameLoop\<close>:
  \<^verbatim>\<open>while (this.accumulator >= this.fixedTimeStep) {
    this.update(this.fixedTimeStep);
    this.accumulator -= this.fixedTimeStep;
  }\<close>
\<close>

function drain :: "Game \<Rightarrow> Game" where
  "drain g =
     (if accumulator g \<ge> fixedTimeStep
      then drain ((update g fixedTimeStep)
                    \<lparr>accumulator := accumulator (update g fixedTimeStep) - fixedTimeStep\<rparr>)
      else g)"
  by pat_completeness auto

termination drain
proof (relation "measure (\<lambda>g. nat \<lfloor>accumulator g / fixedTimeStep\<rfloor>)")
  show "wf (measure (\<lambda>g. nat \<lfloor>accumulator g / fixedTimeStep\<rfloor>))" by simp
next
  fix g :: Game
  assume "fixedTimeStep \<le> accumulator g"
  then have "1 \<le> accumulator g / fixedTimeStep"
    by (simp add: fixedTimeStep_def)
  then have "1 \<le> \<lfloor>accumulator g / fixedTimeStep\<rfloor>"
    by (simp add: le_floor_iff)
  moreover have "(accumulator g - fixedTimeStep) / fixedTimeStep
      = accumulator g / fixedTimeStep - 1"
    by (simp add: fixedTimeStep_def diff_divide_distrib)
  ultimately have "nat \<lfloor>(accumulator g - fixedTimeStep) / fixedTimeStep\<rfloor>
      < nat \<lfloor>accumulator g / fixedTimeStep\<rfloor>"
    by (simp only: floor_diff_one)
  then show "((update g fixedTimeStep)
        \<lparr>accumulator := accumulator (update g fixedTimeStep) - fixedTimeStep\<rparr>, g)
      \<in> measure (\<lambda>g. nat \<lfloor>accumulator g / fixedTimeStep\<rfloor>)"
    by (simp add: update_def)
qed

declare drain.simps [simp del]



subsection \<open>Binary64 arithmetic\<close>

text \<open>
  Two properties below depend on how the source's arithmetic rounds: the number of
  iterations of the draining loop, and the length of the vector that
  \<open>getVirtualJoystick\<close> returns. For these the code is modelled once more with every
  arithmetic operation rounded as IEEE 754 binary64 arithmetic rounds it: the exact
  result is replaced by the nearest number of the form \<open>m * 2^(e - 52)\<close> with an
  integer \<open>m\<close>, where \<open>e\<close> is the binary exponent of the exact result and at least
  \<open>-1022\<close> (below that the spacing stays \<open>2^-1074\<close>, the subnormal numbers); a result
  halfway between two neighbours goes to the one with the even \<open>m\<close>. A number is still
  a \<^typ>\<open>real\<close>: the value of a binary64 number. Results of magnitude \<open>2^1024\<close> and
  more, which the source turns into an infinity, have no counterpart; the theorems
  say where they need such results to be absent. \<open>Math.sqrt\<close> rounds correctly, as the
  hardware instruction behind it does.
\<close>

definition roundTiesToEven :: "real \<Rightarrow> int" where
  "roundTiesToEven y =
     (let f = \<lfloor>y\<rfloor>
      in if y - of_int f < 1 / 2 then f
         else if 1 / 2 < y - of_int f then f + 1
         else if even f then f else f + 1)"

definition exponent64 :: "real \<Rightarrow> int" where
  "exponent64 x = max (- 1022) \<lfloor>log 2 \<bar>x\<bar>\<rfloor>"

definition ulp64 :: "real \<Rightarrow> real" where
  "ulp64 x = 2 powr of_int (exponent64 x - 52)"

definition round64 :: "real \<Rightarrow> real" where
  "round64 x = (if x = 0 then 0 else of_int (roundTiesToEven (x / ulp64 x)) * ulp64 x)"

text \<open>
  The fixed-timestep loop in binary64 arithmetic. \<open>1000 / 60\<close> is itself the result of
  a rounded division. The draining loop need not terminate (an accumulator of
  \<open>2^60\<close> is not changed by subtracting the step), so \<open>drain64\<close> and \<open>gameLoop64\<close>
  return \<open>None\<close> when it does not. \<open>Math.min\<close> and the comparisons are exact.
\<close>

definition fixedTimeStep64 :: real where
  "fixedTimeStep64 = round64 (1000 / 60)"

definition updateFPSCounter64 :: "Game \<Rightarrow> real \<Rightarrow> Game" where
  "updateFPSCounter64 g currentTime =
     (let g1 = g\<lparr>fpsFrameCount := Suc (fpsFrameCount g)\<rparr>
      in if round64 (currentTime - fpsUpdateTime g1) \<ge> 1000
         then g1\<lparr>fps := fpsFrameCount g1, fpsFrameCount := 0,
                 fpsUpdateTime := currentTime\<rparr>
         else g1)"

partial_function (option) drain64 :: "Game \<Rightarrow> Game option" where
  "drain64 g =
     (if accumulator g \<ge> fixedTimeStep64
      then drain64 ((update g fixedTimeStep64)
             \<lparr>accumulator :=
                round64 (accumulator (update g fixedTimeStep64) - fixedTimeStep64)\<rparr>)
      else Some g)"

definition gameLoop64 :: "Game \<Rightarrow> real \<Rightarrow> Game option" where
  "gameLoop64 g currentTime =
     (if \<not> isRunning g then Some g
      else
        let deltaTime = min (round64 (currentTime - lastTime g)) maxDeltaTime;
            g1 = g\<lparr>lastTime := currentTime\<rparr>;
            g2 = updateFPSCounter64 g1 currentTime;
            g3 = g2\<lparr>accumulator := round64 (accumulator g2 + deltaTime)\<rparr>
        in case drain64 g3 of
             None \<Rightarrow> None
           | Some g4 \<Rightarrow> Some (updatePerformanceMetrics g4 deltaTime))"

subsection \<open>InputHandler: touches, virtual joystick, gestures\<close>

text \<open>
  The interfaces \<open>TouchInfo\<close> and \<open>VirtualJoystick\<close>, and the DOM \<open>Touch\<close> object
  as far as the handlers read it. The source's field names \<open>id\<close>, \<open>x\<close> and \<open>y\<close>
  carry a suffix here, since a record field is a constant of the theory; the DOM
  field \<open>identifier\<close> is \<open>touch_identifier\<close>, the plain word being reserved. The
  identifier of a touch is an integer; \<open>touchId: number | null\<close> is an
  \<^typ>\<open>int option\<close>.
\<close>

record TouchInfo =
  id_touch :: int
  x_touch :: real
  y_touch :: real
  startX :: real
  startY :: real
  startTime :: real

record VirtualJoystick =
  x_joy :: real
  y_joy :: real
  radius :: real
  active :: bool
  touchId :: "int option"

record Touch =
  touch_identifier :: int
  clientX :: real
  clientY :: real

text \<open>
  The state of the handler that the touch handlers use: \<open>state.touches\<close>, the
  joystick and \<open>canvas.width\<close>. Keys and mouse are separate fields that no touch
  handler reads or writes.
\<close>

record InputHandler =
  touches :: "TouchInfo list"
  virtualJoystick :: VirtualJoystick
  canvasWidth :: real

text \<open>The state the constructor builds, for a canvas of the given width.\<close>

definition newInputHandler :: "real \<Rightarrow> InputHandler" where
  "newInputHandler width =
     \<lparr>touches = [],
      virtualJoystick = \<lparr>x_joy = 0, y_joy = 0, radius = 50, active = False, touchId = None\<rparr>,
      canvasWidth = width\<rparr>"

text \<open>
  Gestures handed to \<open>emitGesture\<close>: the type name and the data object. A swipe
  carries the touch, the direction string and both deltas.
\<close>

datatype Gesture =
  Tap TouchInfo
  | Swipe TouchInfo string real real
  | LongPress TouchInfo

definition TAP_TIMEOUT :: real where
  "TAP_TIMEOUT = 300"

definition SWIPE_THRESHOLD :: real where
  "SWIPE_THRESHOLD = 30"

text \<open>
  \<open>Math.atan2(y, x)\<close>: the angle of the point \<open>(x, y)\<close>, in \<open>(-\<pi>, \<pi>]\<close>, and \<open>0\<close> at
  the origin.
\<close>

definition atan2 :: "real \<Rightarrow> real \<Rightarrow> real" where
  "atan2 y x = Arg (Complex x y)"

text \<open>\<open>Array.prototype.findIndex\<close>, with \<open>None\<close> for \<open>-1\<close>.\<close>

fun findIndex :: "('a \<Rightarrow> bool) \<Rightarrow> 'a list \<Rightarrow> nat option" where
  "findIndex P [] = None"
| "findIndex P (a # as) =
     (if P a then Some 0 else map_option Suc (findIndex P as))"

text \<open>
  Assignment to the fields of the object that \<open>find\<close> returned: the first element
  that satisfies the predicate is changed in place.
\<close>

fun updateFirst :: "('a \<Rightarrow> bool) \<Rightarrow> ('a \<Rightarrow> 'a) \<Rightarrow> 'a list \<Rightarrow> 'a list" where
  "updateFirst P f [] = []"
| "updateFirst P f (a # as) = (if P a then f a # as else a # updateFirst P f as)"

definition activateVirtualJoystick :: "InputHandler \<Rightarrow> real \<Rightarrow> real \<Rightarrow> int \<Rightarrow> InputHandler" where
  "activateVirtualJoystick h px py tid =
     h\<lparr>virtualJoystick :=
         \<lparr>x_joy = px, y_joy = py, radius = 50, active = True, touchId = Some tid\<rparr>\<rparr>"

definition updateVirtualJoystick :: "InputHandler \<Rightarrow> real \<Rightarrow> real \<Rightarrow> InputHandler" where
  "updateVirtualJoystick h px py =
     (let vj = virtualJoystick h in
      if \<not> active vj then h
      else
        let dx = px - x_joy vj;
            dy = py - y_joy vj;
            distance = sqrt (dx * dx + dy * dy);
            maxDistance = radius vj
        in if distance \<le> maxDistance
           then h\<lparr>virtualJoystick := vj\<lparr>x_joy := px, y_joy := py\<rparr>\<rparr>
           else
             let angle = atan2 dy dx
             in h\<lparr>virtualJoystick :=
                    vj\<lparr>x_joy := x_joy vj + cos angle * maxDistance,
                       y_joy := y_joy vj + sin angle * maxDistance\<rparr>\<rparr>)"

definition deactivateVirtualJoystick :: "InputHandler \<Rightarrow> InputHandler" where
  "deactivateVirtualJoystick h =
     h\<lparr>virtualJoystick := (virtualJoystick h)\<lparr>active := False, touchId := None\<rparr>\<rparr>"

definition getSwipeDirection :: "real \<Rightarrow> real \<Rightarrow> string" where
  "getSwipeDirection deltaX deltaY =
     (let absX = \<bar>deltaX\<bar>; absY = \<bar>deltaY\<bar>
      in if absX > absY then (if deltaX > 0 then ''right'' else ''left'')
         else (if deltaY > 0 then ''down'' else ''up''))"

text \<open>
  \<open>completeGestureRecognition\<close>, with the value of \<open>Date.now()\<close> as a parameter. The
  result is the gesture passed to \<open>emitGesture\<close>, if any.
\<close>

definition completeGestureRecognition :: "real \<Rightarrow> TouchInfo \<Rightarrow> Gesture option" where
  "completeGestureRecognition now touchInfo =
     (let touchDuration = now - startTime touchInfo;
          deltaX = x_touch touchInfo - startX touchInfo;
          deltaY = y_touch touchInfo - startY touchInfo;
          distance = sqrt (deltaX * deltaX + deltaY * deltaY)
      in if touchDuration \<le> TAP_TIMEOUT \<and> distance < 10 then Some (Tap touchInfo)
         else if distance > SWIPE_THRESHOLD
           then Some (Swipe touchInfo (getSwipeDirection deltaX deltaY) deltaX deltaY)
         else None)"

text \<open>
  The timer that \<open>startGestureRecognition\<close> arms changes no state; when it fires it
  emits a long press if a touch with the same id is still in the list.
\<close>

definition longPressTimeout :: "InputHandler \<Rightarrow> int \<Rightarrow> Gesture option" where
  "longPressTimeout h tid =
     map_option LongPress (find (\<lambda>t. id_touch t = tid) (touches h))"

text \<open>
  The bodies of the \<open>for\<close> loops over \<open>event.changedTouches\<close>. \<open>rect\<close> is the pair
  \<open>(left, top)\<close> of \<open>canvas.getBoundingClientRect()\<close>.
\<close>

definition touchStartOne :: "real \<times> real \<Rightarrow> real \<Rightarrow> InputHandler \<Rightarrow> Touch \<Rightarrow> InputHandler" where
  "touchStartOne rect now h touch =
     (let touchInfo = \<lparr>id_touch = touch_identifier touch,
                        x_touch = clientX touch - fst rect,
                        y_touch = clientY touch - snd rect,
                        startX = clientX touch - fst rect,
                        startY = clientY touch - snd rect,
                        startTime = now\<rparr>;
          h1 = h\<lparr>touches := touches h @ [touchInfo]\<rparr>
      in if x_touch touchInfo < canvasWidth h1 / 2
         then activateVirtualJoystick h1 (x_touch touchInfo) (y_touch touchInfo)
                (touch_identifier touch)
         else h1)"

definition touchMoveOne :: "real \<times> real \<Rightarrow> InputHandler \<Rightarrow> Touch \<Rightarrow> InputHandler" where
  "touchMoveOne rect h touch =
     (case find (\<lambda>t. id_touch t = touch_identifier touch) (touches h) of
        None \<Rightarrow> h
      | Some touchInfo \<Rightarrow>
          let px = clientX touch - fst rect;
              py = clientY touch - snd rect;
              h1 = h\<lparr>touches := updateFirst (\<lambda>t. id_touch t = touch_identifier touch)
                                  (\<lambda>t. t\<lparr>x_touch := px, y_touch := py\<rparr>) (touches h)\<rparr>
          in if active (virtualJoystick h1)
                \<and> touchId (virtualJoystick h1) = Some (touch_identifier touch)
             then updateVirtualJoystick h1 px py
             else h1)"

definition touchEndOne :: "real \<Rightarrow> InputHandler \<times> Gesture list \<Rightarrow> Touch
    \<Rightarrow> InputHandler \<times> Gesture list" where
  "touchEndOne now hg touch =
     (let h = fst hg;
          (h1, emitted) =
            (case findIndex (\<lambda>t. id_touch t = touch_identifier touch) (touches h) of
               None \<Rightarrow> (h, [])
             | Some touchInfoIndex \<Rightarrow>
                 (h\<lparr>touches := take touchInfoIndex (touches h)
                                 @ drop (Suc touchInfoIndex) (touches h)\<rparr>,
                  (case completeGestureRecognition now (touches h ! touchInfoIndex) of
                     None \<Rightarrow> [] | Some g \<Rightarrow> [g])));
          h2 = (if touchId (virtualJoystick h1) = Some (touch_identifier touch)
                then deactivateVirtualJoystick h1 else h1)
      in (h2, snd hg @ emitted))"

definition handleTouchStart :: "InputHandler \<Rightarrow> Touch list \<Rightarrow> real \<times> real \<Rightarrow> real \<Rightarrow> InputHandler" where
  "handleTouchStart h changedTouches rect now = foldl (touchStartOne rect now) h changedTouches"

definition handleTouchMove :: "InputHandler \<Rightarrow> Touch list \<Rightarrow> real \<times> real \<Rightarrow> InputHandler" where
  "handleTouchMove h changedTouches rect = foldl (touchMoveOne rect) h changedTouches"

text \<open>\<open>handleTouchEnd\<close> also returns the gestures it emitted, in order.\<close>

definition handleTouchEnd :: "InputHandler \<Rightarrow> Touch list \<Rightarrow> real \<Rightarrow> InputHandler \<times> Gesture list" where
  "handleTouchEnd h changedTouches now = foldl (touchEndOne now) (h, []) changedTouches"

text \<open>
  \<open>getVirtualJoystick\<close>. The guard \<open>!this.virtualJoystick.touchId\<close> holds for \<open>null\<close>
  and for the number \<open>0\<close>. In every state the handlers produce the radius is 50, so
  neither division is by zero.
\<close>

record JoystickReading =
  x_out :: real
  y_out :: real
  active_out :: bool

definition getVirtualJoystick :: "InputHandler \<Rightarrow> JoystickReading" where
  "getVirtualJoystick h =
     (let vj = virtualJoystick h in
      if \<not> active vj \<or> touchId vj = None \<or> touchId vj = Some 0
      then \<lparr>x_out = 0, y_out = 0, active_out = False\<rparr>
      else
        case find (\<lambda>t. Some (id_touch t) = touchId vj) (touches h) of
          None \<Rightarrow> \<lparr>x_out = 0, y_out = 0, active_out = False\<rparr>
        | Some startTouch \<Rightarrow>
            let dx = x_joy vj - startX startTouch;
                dy = y_joy vj - startY startTouch;
                distance = sqrt (dx * dx + dy * dy);
                maxDistance = radius vj
            in \<lparr>x_out = (if distance \<le> maxDistance then dx / maxDistance else dx / distance),
                y_out = (if distance \<le> maxDistance then dy / maxDistance else dy / distance),
                active_out = True\<rparr>)"

text \<open>Touch events as the browser delivers them, and a run of the handler over them.\<close>

datatype TouchEvent =
  TouchStart "Touch list" "real \<times> real" real
  | TouchMove "Touch list" "real \<times> real"
  | TouchEnd "Touch list" real

fun dispatch :: "InputHandler \<Rightarrow> TouchEvent \<Rightarrow> InputHandler" where
  "dispatch h (TouchStart changedTouches rect now) = handleTouchStart h changedTouches rect now"
| "dispatch h (TouchMove changedTouches rect) = handleTouchMove h changedTouches rect"
| "dispatch h (TouchEnd changedTouches now) = fst (handleTouchEnd h changedTouches now)"

definition runEvents :: "InputHandler \<Rightarrow> TouchEvent list \<Rightarrow> InputHandler" where
  "runEvents h events = foldl dispatch h events"

text \<open>
  Vocabulary for the properties of the joystick: the offset of the joystick position
  from the start position of the touch it is bound to (the anchor), as
  \<open>getVirtualJoystick\<close> computes it, and the length of that offset.
\<close>

definition anchorOffset :: "InputHandler \<Rightarrow> (real \<times> real) option" where
  "anchorOffset h =
     (case find (\<lambda>t. Some (id_touch t) = touchId (virtualJoystick h)) (touches h) of
        None \<Rightarrow> None
      | Some startTouch \<Rightarrow>
          Some (x_joy (virtualJoystick h) - startX startTouch,
                y_joy (virtualJoystick h) - startY startTouch))"

definition anchorDistance :: "InputHandler \<Rightarrow> real option" where
  "anchorDistance h = map_option (\<lambda>(dx, dy). sqrt (dx * dx + dy * dy)) (anchorOffset h)"

subsection \<open>SceneManager: registry and transitions\<close>

text \<open>
  A scene is an object; the manager compares scenes by identity (\<open>===\<close>), so a scene
  is modelled by its reference. The calls the manager makes on scene objects
  (\<open>init\<close>, \<open>destroy\<close>) are recorded, oldest first, in the field \<open>sceneCalls\<close>, which is
  not in the source. \<open>transitionProgress\<close> is \<open>None\<close> when the source's quotient is not
  a real number (see \<open>progressAt\<close>).
\<close>

type_synonym Scene = nat

datatype TransitionType = NONE | FADE | SLIDE_LEFT | SLIDE_RIGHT | SLIDE_UP | SLIDE_DOWN

datatype SceneCall = Init Scene | Destroy Scene

datatype error = Error string

record SceneManager =
  scenes :: "string \<rightharpoonup> Scene"
  initializedScenes :: "string set"
  currentScene :: "Scene option"
  previousScene :: "Scene option"
  transitionFromScene :: "Scene option"
  transitionToScene :: "Scene option"
  transitionActive :: bool
  transitionProgress :: "real option"
  transitionType :: TransitionType
  transitionDuration :: real
  sceneCalls :: "SceneCall list"

definition addScene :: "SceneManager \<Rightarrow> string \<Rightarrow> Scene \<Rightarrow> SceneManager" where
  "addScene sm name scene = sm\<lparr>scenes := (scenes sm)(name \<mapsto> scene)\<rparr>"

text \<open>
  \<open>removeScene\<close> returns the state it leaves behind together with the error it throws,
  if any.
\<close>

definition removeScene :: "SceneManager \<Rightarrow> string \<Rightarrow> SceneManager \<times> error option" where
  "removeScene sm name =
     (case scenes sm name of
        None \<Rightarrow> (sm, None)
      | Some scene \<Rightarrow>
          if currentScene sm = Some scene
          then (sm, Some (Error (''Cannot remove active scene: '' @ name)))
          else (sm\<lparr>sceneCalls := sceneCalls sm @ [Destroy scene],
                   scenes := (scenes sm)(name := None),
                   initializedScenes := initializedScenes sm - {name}\<rparr>, None))"

definition completeTransition :: "SceneManager \<Rightarrow> Scene option \<Rightarrow> Scene \<Rightarrow> SceneManager" where
  "completeTransition sm fromScene toScene =
     (let sm1 = (case fromScene of
                   None \<Rightarrow> sm
                 | Some scene \<Rightarrow> sm\<lparr>sceneCalls := sceneCalls sm @ [Destroy scene]\<rparr>)
      in sm1\<lparr>previousScene := None,
              currentScene := Some toScene,
              transitionActive := False,
              transitionProgress := Some 0,
              transitionFromScene := None,
              transitionToScene := None\<rparr>)"

text \<open>
  \<open>Math.min(elapsed / this.transitionDuration, 1)\<close>. With a duration of zero the
  quotient is \<open>Infinity\<close> for a positive elapsed time, so the minimum is 1; for an
  elapsed time of zero it is \<open>NaN\<close> and for a negative one \<open>-Infinity\<close>, and the minimum is
  that value: \<open>None\<close> here.
\<close>

definition progressAt :: "real \<Rightarrow> real \<Rightarrow> real option" where
  "progressAt elapsed duration =
     (if duration = 0 then (if 0 < elapsed then Some 1 else None)
      else Some (min (elapsed / duration) 1))"

text \<open>
  The closure \<open>updateTransition\<close> inside \<open>performTransition\<close>, run once: \<open>now\<close> is the
  value of \<open>Date.now()\<close>. The flag tells whether the transition completed (and the
  promise resolved) or another animation frame was requested. Neither \<open>NaN\<close> nor
  \<open>-Infinity\<close> is \<open>>= 1\<close>.
\<close>

definition updateTransitionFrame ::
    "SceneManager \<Rightarrow> Scene option \<Rightarrow> Scene \<Rightarrow> real \<Rightarrow> real \<Rightarrow> SceneManager \<times> bool" where
  "updateTransitionFrame sm fromScene toScene startedAt now =
     (let elapsed = now - startedAt;
          sm1 = sm\<lparr>transitionProgress := progressAt elapsed (transitionDuration sm)\<rparr>
      in if (case transitionProgress sm1 of None \<Rightarrow> False | Some progress \<Rightarrow> progress \<ge> 1)
         then (completeTransition sm1 fromScene toScene, True)
         else (sm1, False))"

text \<open>
  \<open>switchTo\<close> is asynchronous. A call runs until it throws, returns, or is suspended:
  at \<open>await newScene.init()\<close>, or inside \<open>performTransition\<close> waiting for the next
  animation frame with \<open>fromScene\<close>, \<open>toScene\<close> and \<open>startTime\<close> in its closure.
\<close>

datatype Pending =
  AwaitingInit string Scene TransitionType
  | InTransition "Scene option" Scene real

datatype Outcome = Threw error | Returned | Suspended Pending

text \<open>
  \<open>performTransition\<close>: \<open>startedAt\<close> is its reading of \<open>Date.now()\<close> (\<open>startTime\<close> in
  the source), and the first run of \<open>updateTransition\<close> happens at once, with its own reading \<open>now\<close>.
\<close>

definition performTransition ::
    "SceneManager \<Rightarrow> Scene option \<Rightarrow> Scene \<Rightarrow> TransitionType \<Rightarrow> real \<Rightarrow> real
      \<Rightarrow> SceneManager \<times> Outcome" where
  "performTransition sm fromScene toScene ttype startedAt now =
     (let (sm1, finished) = updateTransitionFrame sm fromScene toScene startedAt now
      in (sm1, if finished then Returned
               else Suspended (InTransition fromScene toScene startedAt)))"

text \<open>The part of \<open>switchTo\<close> after the initialisation of the new scene.\<close>

definition startTransition ::
    "SceneManager \<Rightarrow> Scene \<Rightarrow> TransitionType \<Rightarrow> real \<Rightarrow> real \<Rightarrow> SceneManager \<times> Outcome" where
  "startTransition sm newScene ttype startedAt now =
     (let sm1 = sm\<lparr>transitionFromScene := currentScene sm,
                     transitionToScene := Some newScene\<rparr>
      in performTransition sm1 (currentScene sm1) newScene ttype startedAt now)"

text \<open>A call of \<open>switchTo\<close>, up to its first suspension.\<close>

definition switchTo ::
    "SceneManager \<Rightarrow> string \<Rightarrow> TransitionType \<Rightarrow> real \<Rightarrow> real \<Rightarrow> SceneManager \<times> Outcome" where
  "switchTo sm sceneName ttype startedAt now =
     (case scenes sm sceneName of
        None \<Rightarrow> (sm, Threw (Error (''Scene not found: '' @ sceneName)))
      | Some newScene \<Rightarrow>
          if transitionActive sm then (sm, Returned)
          else if currentScene sm = Some newScene then (sm, Returned)
          else
            let sm1 = sm\<lparr>transitionActive := True,
                           transitionType := ttype,
                           transitionProgress := Some 0\<rparr>
            in if sceneName \<notin> initializedScenes sm1
               then (sm1\<lparr>sceneCalls := sceneCalls sm1 @ [Init newScene]\<rparr>,
                     Suspended (AwaitingInit sceneName newScene ttype))
               else startTransition sm1 newScene ttype startedAt now)"

text \<open>The call resumes when \<open>init()\<close> has resolved.\<close>

definition switchToResume ::
    "SceneManager \<Rightarrow> string \<Rightarrow> Scene \<Rightarrow> TransitionType \<Rightarrow> real \<Rightarrow> real
      \<Rightarrow> SceneManager \<times> Outcome" where
  "switchToResume sm sceneName newScene ttype startedAt now =
     startTransition (sm\<lparr>initializedScenes := insert sceneName (initializedScenes sm)\<rparr>)
       newScene ttype startedAt now"

text \<open>
  The manager together with its suspended \<open>switchTo\<close> calls, and what can happen to
  them: a new call of \<open>switchTo\<close>; the \<open>init()\<close> promise of the \<open>i\<close>-th suspended call
  resolves or rejects (a rejection ends the call and leaves the manager as it is); the
  animation frame that the \<open>i\<close>-th suspended call requested arrives.
\<close>

record SceneSystem =
  manager :: SceneManager
  pending :: "Pending list"

datatype SceneEvent =
  CallSwitchTo string TransitionType real real
  | InitResolved nat real real
  | InitRejected nat
  | AnimationFrame nat real

definition suspended :: "Outcome \<Rightarrow> Pending list" where
  "suspended out = (case out of Suspended p \<Rightarrow> [p] | _ \<Rightarrow> [])"

fun sceneStep :: "SceneSystem \<Rightarrow> SceneEvent \<Rightarrow> SceneSystem" where
  "sceneStep sys (CallSwitchTo sceneName ttype startedAt now) =
     (let (sm1, out) = switchTo (manager sys) sceneName ttype startedAt now
      in \<lparr>manager = sm1, pending = pending sys @ suspended out\<rparr>)"
| "sceneStep sys (InitResolved i startedAt now) =
     (if i < length (pending sys)
      then (case pending sys ! i of
              AwaitingInit sceneName newScene ttype \<Rightarrow>
                let (sm1, out) = switchToResume (manager sys) sceneName newScene ttype startedAt now
                in \<lparr>manager = sm1,
                    pending = take i (pending sys) @ suspended out @ drop (Suc i) (pending sys)\<rparr>
            | InTransition fromScene toScene st \<Rightarrow> sys)
      else sys)"
| "sceneStep sys (InitRejected i) =
     (if i < length (pending sys)
      then (case pending sys ! i of
              AwaitingInit sceneName newScene ttype \<Rightarrow>
                sys\<lparr>pending := take i (pending sys) @ drop (Suc i) (pending sys)\<rparr>
            | InTransition fromScene toScene st \<Rightarrow> sys)
      else sys)"
| "sceneStep sys (AnimationFrame i now) =
     (if i < length (pending sys)
      then (case pending sys ! i of
              AwaitingInit sceneName newScene ttype \<Rightarrow> sys
            | InTransition fromScene toScene st \<Rightarrow>
                let (sm1, finished) = updateTransitionFrame (manager sys) fromScene toScene st now
                in \<lparr>manager = sm1,
                    pending = (if finished
                               then take i (pending sys) @ drop (Suc i) (pending sys)
                               else pending sys)\<rparr>)
      else sys)"

definition sceneRun :: "SceneSystem \<Rightarrow> SceneEvent list \<Rightarrow> SceneSystem" where
  "sceneRun sys events = foldl sceneStep sys events"

text \<open>
  Vocabulary for the transition property: along a run of events, \<open>transitionActive\<close>
  holds in the state before every event and in the state after the last one.
\<close>

fun activeThroughout :: "SceneSystem \<Rightarrow> SceneEvent list \<Rightarrow> bool" where
  "activeThroughout sys [] = transitionActive (manager sys)"
| "activeThroughout sys (e # es) =
     (transitionActive (manager sys) \<and> activeThroughout (sceneStep sys e) es)"

text \<open>
  The invariant of a transition in flight from the scene \<open>c\<close> (if any) to \<open>target\<close>:
  the transition is marked active, the current scene is still \<open>c\<close>, and at most one
  call is suspended, which will make \<open>target\<close> current.
\<close>

definition transitionInFlight :: "SceneSystem \<Rightarrow> Scene option \<Rightarrow> Scene \<Rightarrow> bool" where
  "transitionInFlight sys c target \<longleftrightarrow>
     transitionActive (manager sys) \<and> currentScene (manager sys) = c \<and>
     (pending sys = [] \<or> (\<exists>n ty. pending sys = [AwaitingInit n target ty])
      \<or> (\<exists>st. pending sys = [InTransition c target st]))"

subsection \<open>AssetManager: loading and progress\<close>

text \<open>
  Assets are objects that the manager's map and the running \<open>loadAsset\<close> calls share
  by reference, and a later call for the same id puts a new object into the map. The
  model keeps the objects in a store, the list \<open>objects\<close>, and a reference is an index
  into it; \<open>assets\<close> and the calls hold references. \<open>loadsStarted\<close> counts the calls of
  \<open>loadAssetData\<close>, and its value names the promise that the call returns. Neither
  \<open>objects\<close> nor \<open>loadsStarted\<close> is a field of the source. The payload of an asset is of
  an arbitrary type \<open>'d\<close>; \<open>None\<close> is \<open>null\<close>. The source's \<open>id\<close>, \<open>type\<close>, \<open>path\<close> and
  \<open>error\<close> carry a suffix.
\<close>

datatype AssetType = IMAGE | AUDIO | JSON | SPRITESHEET | FONT

record 'd Asset =
  id_asset :: string
  type_asset :: AssetType
  path_asset :: string
  loaded :: bool
  data :: "'d option"
  error_asset :: "string option"

record AssetRequest =
  id_request :: string
  type_request :: AssetType
  path_request :: string

record LoadProgress =
  total_progress :: nat
  loaded_progress :: nat
  failed_progress :: nat
  percentage :: real

record 'd AssetManager =
  objects :: "'d Asset list"
  assets :: "string \<rightharpoonup> nat"
  totalAssets :: nat
  loadedAssets :: nat
  failedAssets :: nat
  loadPromises :: "string \<rightharpoonup> nat"
  loadsStarted :: nat

definition newAssetManager :: "'d AssetManager" where
  "newAssetManager =
     \<lparr>objects = [], assets = Map.empty, totalAssets = 0, loadedAssets = 0, failedAssets = 0,
      loadPromises = Map.empty, loadsStarted = 0\<rparr>"

text \<open>
  The state of one call of \<open>loadAsset\<close>: fulfilled with an asset, rejected with the
  error of the load, or suspended at \<open>await loadPromise\<close> with its asset object and its
  request.
\<close>

datatype LoadCall = Fulfilled nat | Rejected string | Awaiting nat AssetRequest

text \<open>
  The test \<open>this.assets.has(request.id)\<close> and \<open>asset.loaded\<close>. A reference in the map
  always points into the store; the comparison with the length only makes the
  function total.
\<close>

definition isCached :: "'d AssetManager \<Rightarrow> string \<Rightarrow> bool" where
  "isCached am key =
     (case assets am key of
        None \<Rightarrow> False
      | Some ref \<Rightarrow> ref < length (objects am) \<and> loaded (objects am ! ref))"

text \<open>
  \<open>loadAsset\<close> up to \<open>await loadPromise\<close>: the cached asset is returned at once;
  otherwise a new asset object is stored under the id, \<open>loadAssetData\<close> is called and
  its promise is stored in \<open>loadPromises\<close>. The table \<open>loadPromises\<close> is not read.
\<close>

definition loadAsset :: "'d AssetManager \<Rightarrow> AssetRequest \<Rightarrow> 'd AssetManager \<times> LoadCall" where
  "loadAsset am request =
     (if isCached am (id_request request)
      then (am, Fulfilled (the (assets am (id_request request))))
      else
        let asset = \<lparr>id_asset = id_request request,
                       type_asset = type_request request,
                       path_asset = path_request request,
                       loaded = False,
                       data = None,
                       error_asset = None\<rparr>;
            ref = length (objects am);
            loadPromise = loadsStarted am
        in (am\<lparr>objects := objects am @ [asset],
                assets := (assets am)(id_request request \<mapsto> ref),
                loadsStarted := Suc (loadsStarted am),
                loadPromises := (loadPromises am)(id_request request \<mapsto> loadPromise)\<rparr>,
            Awaiting ref request))"

text \<open>
  The rest of \<open>loadAsset\<close>, run when the load promise of a suspended call settles:
  with \<open>Inr\<close> the data it resolved to, with \<open>Inl\<close> the message of the error it rejected
  with. A call that is not suspended is left alone.
\<close>

definition loadAssetSettle ::
    "'d AssetManager \<Rightarrow> LoadCall \<Rightarrow> string + 'd \<Rightarrow> 'd AssetManager \<times> LoadCall" where
  "loadAssetSettle am call outcome =
     (case call of
        Awaiting ref request \<Rightarrow>
          (case outcome of
             Inr payload \<Rightarrow>
               (am\<lparr>objects := (objects am)
                        [ref := (objects am ! ref)\<lparr>data := Some payload, loaded := True\<rparr>],
                    loadedAssets := Suc (loadedAssets am),
                    loadPromises := (loadPromises am)(id_request request := None)\<rparr>,
                Fulfilled ref)
           | Inl message \<Rightarrow>
               (am\<lparr>objects := (objects am)
                        [ref := (objects am ! ref)\<lparr>error_asset := Some message\<rparr>],
                    failedAssets := Suc (failedAssets am),
                    loadPromises := (loadPromises am)(id_request request := None)\<rparr>,
                Rejected message))
      | _ \<Rightarrow> (am, call))"

text \<open>
  \<open>loadAssets\<close>, up to \<open>await Promise.all(loadPromises)\<close>: the counters are reset and
  \<open>requests.map\<close> starts every call of \<open>loadAsset\<close>, each running up to its own
  \<open>await\<close>.
\<close>

definition loadAssetsStart ::
    "'d AssetManager \<Rightarrow> AssetRequest list \<Rightarrow> 'd AssetManager \<times> LoadCall list" where
  "loadAssetsStart am requests =
     foldl (\<lambda>(a, calls) request. let (a1, call) = loadAsset a request in (a1, calls @ [call]))
       (am\<lparr>totalAssets := length requests, loadedAssets := 0, failedAssets := 0\<rparr>, [])
       requests"

fun isAwaiting :: "LoadCall \<Rightarrow> bool" where
  "isAwaiting (Awaiting ref request) = True"
| "isAwaiting _ = False"

fun fulfilledWith :: "LoadCall \<Rightarrow> nat list" where
  "fulfilledWith (Fulfilled ref) = [ref]"
| "fulfilledWith _ = []"

text \<open>
  The manager together with every call of \<open>loadAsset\<close> made so far (\<open>loadCalls\<close>, in
  the order of the calls) and, for every call of \<open>loadAssets\<close>, the position of its
  first \<open>loadAsset\<close> call and the number of its requests (\<open>batches\<close>). Calls share the
  manager: whatever started a call, its continuation updates the same counters. What
  can happen: \<open>loadAsset\<close> is called, \<open>loadAssets\<close> is called, or the load of the \<open>i\<close>-th
  call settles with an outcome.
\<close>

record 'd AssetSystem =
  assetManager :: "'d AssetManager"
  loadCalls :: "LoadCall list"
  batches :: "(nat \<times> nat) list"

datatype 'd AssetEvent =
  CallLoadAsset AssetRequest
  | CallLoadAssets "AssetRequest list"
  | LoadSettles nat "string + 'd"

definition newAssetSystem :: "'d AssetSystem" where
  "newAssetSystem = \<lparr>assetManager = newAssetManager, loadCalls = [], batches = []\<rparr>"

fun assetStep :: "'d AssetSystem \<Rightarrow> 'd AssetEvent \<Rightarrow> 'd AssetSystem" where
  "assetStep sys (CallLoadAsset request) =
     (let (a1, call) = loadAsset (assetManager sys) request
      in sys\<lparr>assetManager := a1, loadCalls := loadCalls sys @ [call]\<rparr>)"
| "assetStep sys (CallLoadAssets requests) =
     (let (a1, calls) = loadAssetsStart (assetManager sys) requests
      in sys\<lparr>assetManager := a1,
             loadCalls := loadCalls sys @ calls,
             batches := batches sys @ [(length (loadCalls sys), length requests)]\<rparr>)"
| "assetStep sys (LoadSettles i outcome) =
     (if i < length (loadCalls sys)
      then let (a1, call) = loadAssetSettle (assetManager sys) (loadCalls sys ! i) outcome
           in sys\<lparr>assetManager := a1, loadCalls := (loadCalls sys)[i := call]\<rparr>
      else sys)"

definition assetRun :: "'d AssetSystem \<Rightarrow> 'd AssetEvent list \<Rightarrow> 'd AssetSystem" where
  "assetRun sys events = foldl assetStep sys events"

text \<open>
  The rest of \<open>loadAssets\<close>, for the \<open>b\<close>-th call of it: \<open>Promise.all\<close> resolves once
  every \<open>loadAsset\<close> call of the batch has settled, and the result keeps the fulfilled
  calls, in the order of the requests (a rejected call became \<open>null\<close> and is filtered
  out). \<open>None\<close> stands for a promise that is still pending.
\<close>

definition loadAssetsResult :: "'d AssetSystem \<Rightarrow> nat \<Rightarrow> nat list option" where
  "loadAssetsResult sys b =
     (if b < length (batches sys)
      then let (first, n) = batches sys ! b;
               calls = take n (drop first (loadCalls sys))
           in if list_ex isAwaiting calls then None
              else Some (concat (map fulfilledWith calls))
      else None)"

definition isFullyLoaded :: "'d AssetManager \<Rightarrow> bool" where
  "isFullyLoaded am =
     (if totalAssets am = 0 then True
      else loadedAssets am + failedAssets am \<ge> totalAssets am)"

definition getProgress :: "'d AssetManager \<Rightarrow> LoadProgress" where
  "getProgress am =
     (let total = max (totalAssets am) 1;
          processed = loadedAssets am + failedAssets am;
          percent = (real processed / real total) * 100
      in \<lparr>total_progress = totalAssets am,
          loaded_progress = loadedAssets am,
          failed_progress = failedAssets am,
          percentage = min percent 100\<rparr>)"

section \<open>Properties\<close>

subsection \<open>Binary64 arithmetic: rounding\<close>

lemma roundTiesToEven_error: "\<bar>of_int (roundTiesToEven y) - y\<bar> \<le> 1 / 2"
  unfolding roundTiesToEven_def Let_def by (auto simp: abs_le_iff)

lemma roundTiesToEven_ge: "of_int k \<le> y \<Longrightarrow> k \<le> roundTiesToEven y"
proof -
  assume "of_int k \<le> y"
  then have "k \<le> \<lfloor>y\<rfloor>" by (simp add: le_floor_iff)
  then show ?thesis unfolding roundTiesToEven_def Let_def by auto
qed

lemma roundTiesToEven_between:
  assumes "of_int m - 1 / 2 < y" and "y < of_int m + 1 / 2"
  shows "roundTiesToEven y = m"
proof -
  have "\<lfloor>y\<rfloor> = m \<or> \<lfloor>y\<rfloor> = m - 1" using assms by linarith
  then show ?thesis
  proof
    assume f: "\<lfloor>y\<rfloor> = m"
    then have "y - of_int m < 1 / 2" using assms by simp
    then show ?thesis by (simp add: roundTiesToEven_def f)
  next
    assume f: "\<lfloor>y\<rfloor> = m - 1"
    then have "1 / 2 < y - of_int (m - 1)" using assms by simp
    then show ?thesis by (simp add: roundTiesToEven_def f)
  qed
qed

lemma roundTiesToEven_of_int: "roundTiesToEven (of_int k) = k"
  by (rule roundTiesToEven_between) simp_all


lemma ulp64_pos: "0 < ulp64 x"
  by (simp add: ulp64_def)

lemma ulp64_bound:
  assumes "x \<noteq> 0"
  shows "ulp64 x \<le> \<bar>x\<bar> / 2 ^ 52 \<or> ulp64 x = 1 / 2 ^ 1074"
proof (cases "- 1022 \<le> \<lfloor>log 2 \<bar>x\<bar>\<rfloor>")
  case True
  then have e: "exponent64 x = \<lfloor>log 2 \<bar>x\<bar>\<rfloor>" by (simp add: exponent64_def)
  have "of_int (\<lfloor>log 2 \<bar>x\<bar>\<rfloor> - 52) \<le> log 2 \<bar>x\<bar> - 52" by simp
  then have "2 powr of_int (\<lfloor>log 2 \<bar>x\<bar>\<rfloor> - 52) \<le> 2 powr (log 2 \<bar>x\<bar> - 52)"
    by (rule powr_mono) simp
  also have "\<dots> = 2 powr log 2 \<bar>x\<bar> / 2 powr 52"
    by (rule powr_diff)
  also have "2 powr log 2 \<bar>x\<bar> = \<bar>x\<bar>"
    using assms by simp
  also have "(2::real) powr 52 = 2 ^ 52"
    by simp
  finally show ?thesis by (simp only: ulp64_def e simp_thms)
next
  case False
  then have e: "exponent64 x = - 1022" by (simp add: exponent64_def)
  have "ulp64 x = 2 powr (- 1074)" by (simp add: ulp64_def e)
  also have "\<dots> = 1 / 2 powr 1074" by (rule powr_minus_divide)
  also have "(2::real) powr 1074 = 2 ^ 1074" by simp
  finally show ?thesis by (simp only: simp_thms)
qed


lemma round64_ulp_error: "\<bar>round64 x - x\<bar> \<le> ulp64 x / 2"
proof (cases "x = 0")
  case True
  then show ?thesis using ulp64_pos [of x] by (simp add: round64_def)
next
  case False
  have pos: "0 < ulp64 x" by (rule ulp64_pos)
  have "round64 x - x = (of_int (roundTiesToEven (x / ulp64 x)) - x / ulp64 x) * ulp64 x"
    using False pos by (simp add: round64_def left_diff_distrib)
  then have "\<bar>round64 x - x\<bar> = \<bar>of_int (roundTiesToEven (x / ulp64 x)) - x / ulp64 x\<bar> * ulp64 x"
    using pos by (simp only: abs_mult abs_of_pos)
  also have "\<dots> \<le> 1 / 2 * ulp64 x"
    using roundTiesToEven_error [of "x / ulp64 x"] pos
    by (intro mult_right_mono) simp_all
  finally show ?thesis by simp
qed

lemma round64_error: "\<bar>round64 x - x\<bar> \<le> \<bar>x\<bar> / 2 ^ 53 + 1 / 2 ^ 1075"
proof (cases "x = 0")
  case True
  then show ?thesis by (simp add: round64_def)
next
  case False
  from ulp64_bound [OF False] have "ulp64 x / 2 \<le> \<bar>x\<bar> / 2 ^ 53 + 1 / 2 ^ 1075"
  proof
    assume "ulp64 x \<le> \<bar>x\<bar> / 2 ^ 52"
    then have "ulp64 x / 2 \<le> \<bar>x\<bar> / 2 ^ 53" by simp
    moreover have "(0::real) \<le> 1 / 2 ^ 1075" by simp
    ultimately show ?thesis by linarith
  next
    assume "ulp64 x = 1 / 2 ^ 1074"
    then have "ulp64 x / 2 = 1 / 2 ^ 1075" by simp
    moreover have "0 \<le> \<bar>x\<bar> / 2 ^ 53" by simp
    ultimately show ?thesis by linarith
  qed
  with round64_ulp_error [of x] show ?thesis by linarith
qed

lemma round64_nonneg: "0 \<le> x \<Longrightarrow> 0 \<le> round64 x"
proof (cases "x = 0")
  case True
  then show ?thesis by (simp add: round64_def)
next
  case False
  assume "0 \<le> x"
  then have "of_int 0 \<le> x / ulp64 x" using ulp64_pos [of x] by simp
  then have "0 \<le> roundTiesToEven (x / ulp64 x)" by (rule roundTiesToEven_ge)
  then show ?thesis using False ulp64_pos [of x] by (simp add: round64_def)
qed

lemma round64_error_small:
  assumes "\<bar>x\<bar> < 512"
  shows "\<bar>round64 x - x\<bar> \<le> 1 / 2 ^ 44"
proof (cases "x = 0")
  case True
  then show ?thesis by (simp add: round64_def)
next
  case False
  from ulp64_bound [OF False] have "ulp64 x / 2 \<le> 1 / 2 ^ 44"
  proof
    assume "ulp64 x \<le> \<bar>x\<bar> / 2 ^ 52"
    moreover have "\<bar>x\<bar> / 2 ^ 52 \<le> 512 / 2 ^ 52" using assms by simp
    ultimately have "ulp64 x \<le> 512 / 2 ^ 52" by linarith
    then show ?thesis by simp
  next
    assume "ulp64 x = 1 / 2 ^ 1074"
    then show ?thesis by simp
  qed
  with round64_ulp_error [of x] show ?thesis by linarith
qed


lemma exponent64_eq:
  assumes "2 powr of_int e \<le> \<bar>x\<bar>" and "\<bar>x\<bar> < 2 powr of_int (e + 1)" and "- 1022 \<le> e"
  shows "exponent64 x = e"
proof -
  have "(0::real) < 2 powr of_int e" by simp
  with assms(1) have pos: "0 < \<bar>x\<bar>" by linarith
  have "\<lfloor>log 2 \<bar>x\<bar>\<rfloor> = e"
    using assms(1,2) floor_log_eq_powr_iff [of "\<bar>x\<bar>" 2 e] pos by simp
  with assms(3) show ?thesis by (simp add: exponent64_def)
qed

lemma ulp64_above_one:
  assumes "2 ^ n \<le> \<bar>x\<bar>" and "\<bar>x\<bar> < 2 ^ Suc n"
  shows "ulp64 x = 2 ^ n / 2 ^ 52"
proof -
  have p: "(2::real) powr of_int (int n) = 2 ^ n"
    using powr_realpow [of 2 n] by simp
  have q: "(2::real) powr of_int (int n + 1) = 2 ^ Suc n"
    using powr_realpow [of 2 "Suc n"] by (simp add: add.commute)
  have a: "2 powr of_int (int n) \<le> \<bar>x\<bar>" using assms(1) by (simp only: p)
  have b: "\<bar>x\<bar> < 2 powr of_int (int n + 1)" using assms(2) by (simp only: q)
  have "exponent64 x = int n"
    using a b by (rule exponent64_eq) simp
  then have "ulp64 x = 2 powr (real n - 52)" by (simp add: ulp64_def)
  also have "\<dots> = 2 powr real n / 2 powr 52" by (rule powr_diff)
  also have "\<dots> = 2 ^ n / 2 ^ 52" using powr_realpow [of 2 n] by simp
  finally show ?thesis .
qed

lemma ulp64_below_one:
  assumes "1 / 2 ^ n \<le> \<bar>x\<bar>" and "\<bar>x\<bar> < 2 / 2 ^ n" and "n \<le> 1022"
  shows "ulp64 x = 1 / (2 ^ n * 2 ^ 52)"
proof -
  have p: "(2::real) powr of_int (- int n) = 1 / 2 ^ n"
    using powr_realpow [of 2 n] by (simp add: powr_minus_divide)
  have "(2::real) powr (- real n + 1) = 2 powr (- real n) * 2 powr 1"
    by (rule powr_add)
  moreover have "real_of_int (- int n + 1) = - real n + 1" by simp
  ultimately have q: "(2::real) powr of_int (- int n + 1) = 2 / 2 ^ n"
    using powr_realpow [of 2 n] by (simp add: powr_minus_divide)
  have a: "2 powr of_int (- int n) \<le> \<bar>x\<bar>" using assms(1) by (simp only: p)
  have b: "\<bar>x\<bar> < 2 powr of_int (- int n + 1)" using assms(2) by (simp only: q)
  have "exponent64 x = - int n"
    using a b by (rule exponent64_eq) (use assms(3) in simp)
  then have "ulp64 x = 2 powr (- (real n + 52))" by (simp add: ulp64_def)
  also have "\<dots> = 1 / 2 powr (real n + 52)" by (rule powr_minus_divide)
  also have "\<dots> = 1 / (2 powr real n * 2 powr 52)" by (simp only: powr_add)
  also have "\<dots> = 1 / (2 ^ n * 2 ^ 52)" using powr_realpow [of 2 n] by simp
  finally show ?thesis .
qed

lemma round64_nearest:
  assumes "ulp64 x = U" and "(of_int m - 1 / 2) * U < x" and "x < (of_int m + 1 / 2) * U"
  shows "round64 x = of_int m * U"
proof -
  have pos: "0 < U" using ulp64_pos [of x] assms(1) by simp
  have "of_int m - 1 / 2 < x / U" and "x / U < of_int m + 1 / 2"
    using assms(2,3) pos by (simp_all add: pos_less_divide_eq pos_divide_less_eq)
  then have r: "roundTiesToEven (x / U) = m" by (rule roundTiesToEven_between)
  show ?thesis
  proof (cases "x = 0")
    case False
    then show ?thesis by (simp add: round64_def assms(1) r)
  next
    case True
    with assms(2,3) pos have "of_int m - 1 / 2 < (0::real)" and "(0::real) < of_int m + 1 / 2"
      by (simp_all add: zero_less_mult_iff mult_less_0_iff)
    then have "m = 0" by linarith
    with True show ?thesis by (simp add: round64_def)
  qed
qed

lemma round64_of_int:
  assumes "\<bar>k\<bar> < 2 ^ 53"
  shows "round64 (of_int k) = of_int k"
proof (cases "k = 0")
  case True
  then show ?thesis by (simp add: round64_def)
next
  case False
  then have "1 \<le> nat \<bar>k\<bar>" by simp
  from ex_power_ivl1 [OF _ this, of 2] obtain n where
    n: "2 ^ n \<le> nat \<bar>k\<bar>" "nat \<bar>k\<bar> < 2 ^ (n + 1)" by auto
  then have lo: "(2::int) ^ n \<le> \<bar>k\<bar>" and hi: "\<bar>k\<bar> < (2::int) ^ Suc n"
    by (simp_all add: nat_less_iff le_nat_iff)
  have "(2::int) ^ n < 2 ^ 53" using lo assms by linarith
  then have "n < 53" using power_less_imp_less_exp [of "2::int" n 53] by simp
  then have n52: "n \<le> 52" by simp
  have rlo: "(2::real) ^ n \<le> \<bar>of_int k\<bar>"
    using lo by (metis of_int_abs of_int_le_iff of_int_numeral of_int_power)
  have rhi: "\<bar>of_int k :: real\<bar> < 2 ^ Suc n"
    using hi by (metis of_int_abs of_int_less_iff of_int_numeral of_int_power)
  define P :: real where "P = 2 ^ 52"
  have u: "ulp64 (of_int k) = 2 ^ n / P"
    unfolding P_def using rlo rhi by (rule ulp64_above_one)
  have "(2::real) ^ 52 = 2 ^ (52 - n + n)" using n52 by simp
  then have split: "P = 2 ^ (52 - n) * 2 ^ n"
    unfolding P_def by (simp only: power_add)
  have eq: "of_int (k * 2 ^ (52 - n)) * ((2::real) ^ n / P) = of_int k"
    by (simp add: split)
  have pos: "(0::real) < 2 ^ n / P" by (simp add: P_def)
  have "round64 (of_int k) = of_int (k * 2 ^ (52 - n)) * (2 ^ n / P)"
  proof (rule round64_nearest [OF u])
    have "(of_int (k * 2 ^ (52 - n)) - 1 / 2) * ((2::real) ^ n / P)
        = of_int k - 1 / 2 * (2 ^ n / P)"
      by (simp only: left_diff_distrib eq)
    then show "(of_int (k * 2 ^ (52 - n)) - 1 / 2) * ((2::real) ^ n / P) < of_int k"
      using pos by simp
    have "(of_int (k * 2 ^ (52 - n)) + 1 / 2) * ((2::real) ^ n / P)
        = of_int k + 1 / 2 * (2 ^ n / P)"
      by (simp only: distrib_right eq)
    then show "of_int k < (of_int (k * 2 ^ (52 - n)) + 1 / 2) * ((2::real) ^ n / P)"
      using pos by simp
  qed
  with eq show ?thesis by simp
qed

lemma round64_numeral:
  "(numeral w :: int) < 2 ^ 53 \<Longrightarrow> round64 (numeral w) = numeral w"
  using round64_of_int [of "numeral w"] by simp


lemma round64_eval_above:
  assumes "2 ^ n \<le> \<bar>x\<bar>" and "\<bar>x\<bar> < 2 ^ Suc n"
    and "(of_int m - 1 / 2) * (2 ^ n / 2 ^ 52) < x" and "x < (of_int m + 1 / 2) * (2 ^ n / 2 ^ 52)"
  shows "round64 x = of_int m * (2 ^ n / 2 ^ 52)"
  using ulp64_above_one [OF assms(1,2)] assms(3,4) by (rule round64_nearest)

lemma round64_eval_below:
  assumes "1 / 2 ^ n \<le> \<bar>x\<bar>" and "\<bar>x\<bar> < 2 / 2 ^ n" and "n \<le> 1022"
    and "(of_int m - 1 / 2) * (1 / (2 ^ n * 2 ^ 52)) < x"
    and "x < (of_int m + 1 / 2) * (1 / (2 ^ n * 2 ^ 52))"
  shows "round64 x = of_int m * (1 / (2 ^ n * 2 ^ 52))"
  using ulp64_below_one [OF assms(1,2,3)] assms(4,5) by (rule round64_nearest)

subsection \<open>Game: properties of the draining loop\<close>








subsection \<open>Game: the draining loop in binary64 arithmetic\<close>

lemma fixedTimeStep64_value: "fixedTimeStep64 = 4691249611844267 / 2 ^ 48"
  unfolding fixedTimeStep64_def
  using round64_nearest [OF ulp64_above_one, of 4 "1000 / 60" 4691249611844267] by simp

lemma fixedTimeStep64_bounds: "16 < fixedTimeStep64" "fixedTimeStep64 < 17"
  by (simp_all add: fixedTimeStep64_value)

lemma round64_ge_grid:
  assumes "x \<noteq> 0" and "of_int k * ulp64 x \<le> x"
  shows "of_int k * ulp64 x \<le> round64 x"
proof -
  have pos: "0 < ulp64 x" by (rule ulp64_pos)
  from assms(2) pos have "of_int k \<le> x / ulp64 x" by (simp add: pos_le_divide_eq)
  then have "k \<le> roundTiesToEven (x / ulp64 x)" by (rule roundTiesToEven_ge)
  then have "(of_int k :: real) \<le> of_int (roundTiesToEven (x / ulp64 x))" by simp
  then have "of_int k * ulp64 x \<le> of_int (roundTiesToEven (x / ulp64 x)) * ulp64 x"
    using pos by (simp only: mult_le_cancel_right_pos)
  then show ?thesis using assms(1) by (simp add: round64_def)
qed

lemma round64_ge_250:
  assumes "250 < x"
  shows "250 \<le> round64 x"
proof (cases "x < 256")
  case True
  have u: "ulp64 x = 2 ^ 7 / 2 ^ 52"
    using assms True by (intro ulp64_above_one) simp_all
  have "of_int (250 * 2 ^ 45) * ulp64 x \<le> round64 x"
    using assms by (intro round64_ge_grid) (simp_all add: u)
  then show ?thesis by (simp add: u)
next
  case False
  have "\<bar>round64 x - x\<bar> \<le> \<bar>x\<bar> / 2 ^ 53 + 1 / 2 ^ 1075" by (rule round64_error)
  then have "x - (x / 2 ^ 53 + 1 / 2 ^ 1075) \<le> round64 x" using False by simp
  moreover have "250 \<le> x - (x / 2 ^ 53 + 1 / 2 ^ 1075)" using False by simp
  ultimately show ?thesis by linarith
qed

lemma drain64_result:
  assumes "drain64 g = Some g'"
  shows "accumulator g' < fixedTimeStep64 \<and> updateCalls g \<le> updateCalls g'
     \<and> accumulator g' = ((\<lambda>a. round64 (a - fixedTimeStep64)) ^^ (updateCalls g' - updateCalls g))
          (accumulator g)"
proof -
  let ?P = "\<lambda>g g'. accumulator g' < fixedTimeStep64 \<and> updateCalls g \<le> updateCalls g'
     \<and> accumulator g' = ((\<lambda>a. round64 (a - fixedTimeStep64)) ^^ (updateCalls g' - updateCalls g))
          (accumulator g)"
  have "?P g g'"
  proof (rule drain64.raw_induct [where P = ?P and g = g and y = g'])
    show "drain64 g = Some g'" by fact
  next
    fix drain h h'
    assume IH: "\<And>x y. drain x = Some y \<Longrightarrow> ?P x y"
      and eq: "(if fixedTimeStep64 \<le> accumulator h
          then drain ((update h fixedTimeStep64)
             \<lparr>accumulator := round64 (accumulator (update h fixedTimeStep64) - fixedTimeStep64)\<rparr>)
          else Some h) = Some h'"
    show "?P h h'"
    proof (cases "fixedTimeStep64 \<le> accumulator h")
      case False
      with eq show ?thesis by simp
    next
      case True
      let ?h1 = "(update h fixedTimeStep64)
             \<lparr>accumulator := round64 (accumulator (update h fixedTimeStep64) - fixedTimeStep64)\<rparr>"
      from True eq have "drain ?h1 = Some h'" by simp
      from IH [OF this] have lt: "accumulator h' < fixedTimeStep64"
        and le: "updateCalls ?h1 \<le> updateCalls h'"
        and it: "accumulator h' = ((\<lambda>a. round64 (a - fixedTimeStep64))
            ^^ (updateCalls h' - updateCalls ?h1)) (accumulator ?h1)"
        by simp_all
      have c: "updateCalls ?h1 = Suc (updateCalls h)" by (simp add: update_def)
      have a: "accumulator ?h1 = round64 (accumulator h - fixedTimeStep64)"
        by (simp add: update_def)
      from le c have k: "updateCalls h' - updateCalls h = Suc (updateCalls h' - updateCalls ?h1)"
        by simp
      have "((\<lambda>a. round64 (a - fixedTimeStep64)) ^^ Suc (updateCalls h' - updateCalls ?h1))
            (accumulator h)
          = ((\<lambda>a. round64 (a - fixedTimeStep64)) ^^ (updateCalls h' - updateCalls ?h1))
            (round64 (accumulator h - fixedTimeStep64))"
        by (simp only: funpow_Suc_right o_apply)
      with lt le c it a show ?thesis by (simp only: k) simp
    qed
  qed
  then show ?thesis .
qed


lemma drain64_step_value:
  assumes "fixedTimeStep64 \<le> a" and "a < 512"
  shows "0 \<le> round64 (a - fixedTimeStep64)"
    and "round64 (a - fixedTimeStep64) \<le> a - 16"
    and "\<bar>round64 (a - fixedTimeStep64) + fixedTimeStep64 - a\<bar> \<le> 1 / 2 ^ 44"
proof -
  have s: "16 + 1 / 2 ^ 44 < fixedTimeStep64" by (simp add: fixedTimeStep64_value)
  from assms(1) show "0 \<le> round64 (a - fixedTimeStep64)" by (intro round64_nonneg) simp
  have "\<bar>a - fixedTimeStep64\<bar> < 512" using assms s by simp
  then have e: "\<bar>round64 (a - fixedTimeStep64) - (a - fixedTimeStep64)\<bar> \<le> 1 / 2 ^ 44"
    by (rule round64_error_small)
  then show "\<bar>round64 (a - fixedTimeStep64) + fixedTimeStep64 - a\<bar> \<le> 1 / 2 ^ 44"
    by (simp add: algebra_simps)
  from e s show "round64 (a - fixedTimeStep64) \<le> a - 16" by linarith
qed

lemma drain64_conserves:
  assumes "drain64 g = Some g'" and "accumulator g < 512"
  shows "\<bar>accumulator g' + real (updateCalls g' - updateCalls g) * fixedTimeStep64
            - accumulator g\<bar> \<le> real (updateCalls g' - updateCalls g) / 2 ^ 44
       \<and> (0 \<le> accumulator g \<longrightarrow> 0 \<le> accumulator g')"
proof -
  let ?P = "\<lambda>g g'. updateCalls g \<le> updateCalls g' \<and> (accumulator g < 512 \<longrightarrow>
       \<bar>accumulator g' + real (updateCalls g' - updateCalls g) * fixedTimeStep64
            - accumulator g\<bar> \<le> real (updateCalls g' - updateCalls g) / 2 ^ 44
       \<and> (0 \<le> accumulator g \<longrightarrow> 0 \<le> accumulator g'))"
  have "?P g g'"
  proof (rule drain64.raw_induct [where P = ?P and g = g and y = g'])
    show "drain64 g = Some g'" by fact
  next
    fix drain h h'
    assume IH: "\<And>x y. drain x = Some y \<Longrightarrow> ?P x y"
      and eq: "(if fixedTimeStep64 \<le> accumulator h
          then drain ((update h fixedTimeStep64)
             \<lparr>accumulator := round64 (accumulator (update h fixedTimeStep64) - fixedTimeStep64)\<rparr>)
          else Some h) = Some h'"
    show "?P h h'"
    proof (cases "fixedTimeStep64 \<le> accumulator h")
      case False
      with eq show ?thesis by simp
    next
      case True
      let ?h1 = "(update h fixedTimeStep64)
             \<lparr>accumulator := round64 (accumulator (update h fixedTimeStep64) - fixedTimeStep64)\<rparr>"
      define k1 where "k1 = updateCalls h' - updateCalls ?h1"
      define a1 where "a1 = round64 (accumulator h - fixedTimeStep64)"
      from True eq have run: "drain ?h1 = Some h'" by simp
      have c: "updateCalls ?h1 = Suc (updateCalls h)" by (simp add: update_def)
      have a: "accumulator ?h1 = a1" by (simp add: update_def a1_def)
      from IH [OF run] have le: "updateCalls ?h1 \<le> updateCalls h'" by blast
      with c have k: "updateCalls h' - updateCalls h = Suc k1" by (simp add: k1_def)
      have le0: "updateCalls h \<le> updateCalls h'" using le c by simp
      have "\<bar>accumulator h' + real (Suc k1) * fixedTimeStep64 - accumulator h\<bar>
              \<le> real (Suc k1) / 2 ^ 44 \<and> (0 \<le> accumulator h \<longrightarrow> 0 \<le> accumulator h')"
        if small: "accumulator h < 512"
      proof -
        note v = drain64_step_value [OF True small, folded a1_def]
        from v(2) small have "a1 < 512" by simp
        with IH [OF run] have cons: "\<bar>accumulator h' + real k1 * fixedTimeStep64 - a1\<bar>
               \<le> real k1 / 2 ^ 44"
          and nn: "0 \<le> accumulator h'"
          using v(1) by (simp_all only: a k1_def [symmetric])
        have "real (Suc k1) * fixedTimeStep64 = real k1 * fixedTimeStep64 + fixedTimeStep64"
          by (simp add: algebra_simps)
        moreover have "real (Suc k1) / 2 ^ 44 = real k1 / 2 ^ 44 + 1 / 2 ^ 44"
          by (simp add: add_divide_distrib)
        moreover have "\<bar>accumulator h' + (real k1 * fixedTimeStep64 + fixedTimeStep64)
              - accumulator h\<bar> \<le> real k1 / 2 ^ 44 + 1 / 2 ^ 44"
          using cons v(3) by linarith
        ultimately show ?thesis using nn by (simp only:) simp
      qed
      with le0 show ?thesis by (simp only: k) blast
    qed
  qed
  with assms(2) show ?thesis by blast
qed

lemma drain64_terminates:
  "accumulator g \<le> 16 * real n + 16 \<Longrightarrow> accumulator g < 512
   \<Longrightarrow> \<exists>g'. drain64 g = Some g' \<and> updateCalls g' \<le> updateCalls g + n"
proof (induction n arbitrary: g)
  case 0
  then have "\<not> fixedTimeStep64 \<le> accumulator g" using fixedTimeStep64_bounds(1) by simp
  then have "drain64 g = Some g" by (subst drain64.simps) simp
  then show ?case by simp
next
  case (Suc n)
  show ?case
  proof (cases "fixedTimeStep64 \<le> accumulator g")
    case False
    then have "drain64 g = Some g" by (subst drain64.simps) simp
    then show ?thesis by simp
  next
    case True
    let ?g1 = "(update g fixedTimeStep64)
             \<lparr>accumulator := round64 (accumulator (update g fixedTimeStep64) - fixedTimeStep64)\<rparr>"
    note v = drain64_step_value [OF True Suc.prems(2)]
    have a: "accumulator ?g1 = round64 (accumulator g - fixedTimeStep64)"
      by (simp add: update_def)
    have c: "updateCalls ?g1 = Suc (updateCalls g)" by (simp add: update_def)
    have "accumulator ?g1 \<le> 16 * real n + 16" using v(2) Suc.prems(1) by (simp only: a) simp
    moreover have "accumulator ?g1 < 512" using v(2) Suc.prems(2) by (simp only: a)
    ultimately obtain g' where g': "drain64 ?g1 = Some g'" "updateCalls g' \<le> updateCalls ?g1 + n"
      using Suc.IH [of ?g1] by blast
    have "drain64 g = drain64 ?g1" using True by (subst drain64.simps) simp
    with g' c show ?thesis by simp
  qed
qed


lemma roundTiesToEven_tie:
  "roundTiesToEven (of_int m + 1 / 2) = (if even m then m else m + 1)"
proof -
  have "\<lfloor>of_int m + 1 / 2 :: real\<rfloor> = m" by linarith
  then show ?thesis by (simp add: roundTiesToEven_def)
qed

lemma round64_tie:
  assumes "ulp64 x = U" and "x = (of_int m + 1 / 2) * U"
  shows "round64 x = of_int (if even m then m else m + 1) * U"
proof -
  have pos: "0 < U" using ulp64_pos [of x] assms(1) by simp
  have "of_int m + 1 / 2 \<noteq> (0::real)"
  proof
    assume "of_int m + 1 / 2 = (0::real)"
    then have "of_int (2 * m + 1) = (0::real)" by simp
    then have "2 * m + 1 = 0" by (simp only: of_int_eq_0_iff)
    then show False by presburger
  qed
  with pos assms(2) have nz: "x \<noteq> 0" by simp
  have "x / U = of_int m + 1 / 2" using assms(2) pos by simp
  then have "roundTiesToEven (x / U) = (if even m then m else m + 1)"
    by (simp only: roundTiesToEven_tie)
  with nz show ?thesis by (simp add: round64_def assms(1))
qed

lemma drain64_continue:
  assumes "accumulator g = x" and "fixedTimeStep64 \<le> x"
    and "round64 (x - fixedTimeStep64) = a"
  shows "drain64 g = drain64 (g\<lparr>updateCalls := updateCalls g + 1, accumulator := a\<rparr>)"
  using assms by (subst drain64.simps) (simp add: update_def)

lemma drain64_stop: "accumulator g < fixedTimeStep64 \<Longrightarrow> drain64 g = Some g"
  by (subst drain64.simps) simp

lemma gameLoop64_unfold:
  "isRunning g \<Longrightarrow>
   gameLoop64 g t =
     map_option (\<lambda>g4. updatePerformanceMetrics g4 (min (round64 (t - lastTime g)) maxDeltaTime))
       (drain64 ((updateFPSCounter64 (g\<lparr>lastTime := t\<rparr>) t)
          \<lparr>accumulator :=
             round64 (accumulator g + min (round64 (t - lastTime g)) maxDeltaTime)\<rparr>))"
  by (simp add: gameLoop64_def Let_def updateFPSCounter64_def split: option.splits)

lemma gameLoop64_first_frame:
  "gameLoop64 
     \<lparr>isRunning = True, isPaused = False, lastTime = 0, accumulator = 0,
       frameCount = 0, fps = 0, fpsUpdateTime = 0, fpsFrameCount = 0, frameTime = 0,
       updateCalls = 0\<rparr> 50 = Some 
     \<lparr>isRunning = True, isPaused = False, lastTime = 50,
       accumulator = 4691249611844265 / 2 ^ 48, frameCount = 1, fps = 0, fpsUpdateTime = 0,
       fpsFrameCount = 1, frameTime = 50, updateCalls = 2\<rparr>"
proof -
  define A where "A a n = \<lparr>isRunning = True, isPaused = False, lastTime = 50, accumulator = a,
       frameCount = 0, fps = 0, fpsUpdateTime = 0, fpsFrameCount = 1, frameTime = 0,
       updateCalls = n\<rparr>" for a :: real and n :: nat
  have p0: "round64 (50 - fixedTimeStep64) = 2345624805922133 / 2 ^ 46"
    using round64_tie [OF ulp64_above_one, of 5 "50 - 4691249611844267 / 2 ^ 48" 4691249611844266]
    by (simp add: fixedTimeStep64_value)
  have p1: "round64 (2345624805922133 / 2 ^ 46 - fixedTimeStep64) = 4691249611844265 / 2 ^ 48"
    using round64_nearest [OF ulp64_above_one, of 4 "2345624805922133 / 2 ^ 46 - 4691249611844267 / 2 ^ 48" 4691249611844265]
    by (simp add: fixedTimeStep64_value)
  have "drain64 (A (50) 0) = drain64 (A (2345624805922133 / 2 ^ 46) 1)"
    using drain64_continue [of "A (50) 0" "50", OF _ _ p0]
    by (simp add: A_def fixedTimeStep64_value eval_nat_numeral)
  also have "\<dots> = drain64 (A (4691249611844265 / 2 ^ 48) 2)"
    using drain64_continue [of "A (2345624805922133 / 2 ^ 46) 1" "2345624805922133 / 2 ^ 46", OF _ _ p1]
    by (simp add: A_def fixedTimeStep64_value eval_nat_numeral)
  also have "\<dots> = Some (A (4691249611844265 / 2 ^ 48) 2)"
    by (rule drain64_stop) (simp add: A_def fixedTimeStep64_value)
  finally have d: "drain64 (A 50 0) = Some (A (4691249611844265 / 2 ^ 48) 2)" by simp
  have "gameLoop64 
     \<lparr>isRunning = True, isPaused = False, lastTime = 0, accumulator = 0,
       frameCount = 0, fps = 0, fpsUpdateTime = 0, fpsFrameCount = 0, frameTime = 0,
       updateCalls = 0\<rparr> 50 = map_option (\<lambda>g4. updatePerformanceMetrics g4 50) (drain64 (A 50 0))"
    by (simp add: gameLoop64_unfold updateFPSCounter64_def round64_numeral maxDeltaTime_def
        Let_def A_def eval_nat_numeral)
  then have "gameLoop64
     \<lparr>isRunning = True, isPaused = False, lastTime = 0, accumulator = 0,
       frameCount = 0, fps = 0, fpsUpdateTime = 0, fpsFrameCount = 0, frameTime = 0,
       updateCalls = 0\<rparr> 50
      = map_option (\<lambda>g4. updatePerformanceMetrics g4 50)
          (Some (A (4691249611844265 / 2 ^ 48) 2))"
    by (simp only: d)
  then show ?thesis by (simp add: A_def updatePerformanceMetrics_def)
qed

lemma gameLoop64_second_frame:
  "gameLoop64 
     \<lparr>isRunning = True, isPaused = False, lastTime = 50,
       accumulator = 4691249611844265 / 2 ^ 48, frameCount = 1, fps = 0, fpsUpdateTime = 0,
       fpsFrameCount = 1, frameTime = 50, updateCalls = 2\<rparr> 1050 = Some 
     \<lparr>isRunning = True, isPaused = False, lastTime = 1050,
       accumulator = 9 / 2 ^ 47, frameCount = 2, fps = 2, fpsUpdateTime = 1050,
       fpsFrameCount = 0, frameTime = 250, updateCalls = 18\<rparr>"
proof -
  define B where "B a n = \<lparr>isRunning = True, isPaused = False, lastTime = 1050, accumulator = a,
       frameCount = 1, fps = 2, fpsUpdateTime = 1050, fpsFrameCount = 0, frameTime = 50,
       updateCalls = n\<rparr>" for a :: real and n :: nat
  have acc2: "round64 (4691249611844265 / 2 ^ 48 + 250) = 4691249611844267 / 2 ^ 44"
    using round64_nearest [OF ulp64_above_one, of 8 "4691249611844265 / 2 ^ 48 + 250" 4691249611844267]
    by simp
  have q0: "round64 (4691249611844267 / 2 ^ 44 - fixedTimeStep64) = 8796093022208001 / 2 ^ 45"
    using round64_nearest [OF ulp64_above_one, of 7 "4691249611844267 / 2 ^ 44 - 4691249611844267 / 2 ^ 48" 8796093022208001]
    by (simp add: fixedTimeStep64_value)
  have q1: "round64 (8796093022208001 / 2 ^ 45 - fixedTimeStep64) = 2052421705181867 / 2 ^ 43"
    using round64_nearest [OF ulp64_above_one, of 7 "8796093022208001 / 2 ^ 45 - 4691249611844267 / 2 ^ 48" 8209686820727468]
    by (simp add: fixedTimeStep64_value)
  have q2: "round64 (2052421705181867 / 2 ^ 43 - fixedTimeStep64) = 7623280619246935 / 2 ^ 45"
    using round64_nearest [OF ulp64_above_one, of 7 "2052421705181867 / 2 ^ 43 - 4691249611844267 / 2 ^ 48" 7623280619246935]
    by (simp add: fixedTimeStep64_value)
  have q3: "round64 (7623280619246935 / 2 ^ 45 - fixedTimeStep64) = 3518437208883201 / 2 ^ 44"
    using round64_nearest [OF ulp64_above_one, of 7 "7623280619246935 / 2 ^ 45 - 4691249611844267 / 2 ^ 48" 7036874417766402]
    by (simp add: fixedTimeStep64_value)
  have q4: "round64 (3518437208883201 / 2 ^ 44 - fixedTimeStep64) = 6450468216285869 / 2 ^ 45"
    using round64_nearest [OF ulp64_above_one, of 7 "3518437208883201 / 2 ^ 44 - 4691249611844267 / 2 ^ 48" 6450468216285869]
    by (simp add: fixedTimeStep64_value)
  have q5: "round64 (6450468216285869 / 2 ^ 45 - fixedTimeStep64) = 733007751850667 / 2 ^ 42"
    using round64_nearest [OF ulp64_above_one, of 7 "6450468216285869 / 2 ^ 45 - 4691249611844267 / 2 ^ 48" 5864062014805336]
    by (simp add: fixedTimeStep64_value)
  have q6: "round64 (733007751850667 / 2 ^ 42 - fixedTimeStep64) = 5277655813324803 / 2 ^ 45"
    using round64_nearest [OF ulp64_above_one, of 7 "733007751850667 / 2 ^ 42 - 4691249611844267 / 2 ^ 48" 5277655813324803]
    by (simp add: fixedTimeStep64_value)
  have q7: "round64 (5277655813324803 / 2 ^ 45 - fixedTimeStep64) = 2345624805922135 / 2 ^ 44"
    using round64_nearest [OF ulp64_above_one, of 7 "5277655813324803 / 2 ^ 45 - 4691249611844267 / 2 ^ 48" 4691249611844270]
    by (simp add: fixedTimeStep64_value)
  have q8: "round64 (2345624805922135 / 2 ^ 44 - fixedTimeStep64) = 8209686820727473 / 2 ^ 46"
    using round64_nearest [OF ulp64_above_one, of 6 "2345624805922135 / 2 ^ 44 - 4691249611844267 / 2 ^ 48" 8209686820727473]
    by (simp add: fixedTimeStep64_value)
  have q9: "round64 (8209686820727473 / 2 ^ 46 - fixedTimeStep64) = 3518437208883203 / 2 ^ 45"
    using round64_nearest [OF ulp64_above_one, of 6 "8209686820727473 / 2 ^ 46 - 4691249611844267 / 2 ^ 48" 7036874417766406]
    by (simp add: fixedTimeStep64_value)
  have q10: "round64 (3518437208883203 / 2 ^ 45 - fixedTimeStep64) = 5864062014805339 / 2 ^ 46"
    using round64_nearest [OF ulp64_above_one, of 6 "3518437208883203 / 2 ^ 45 - 4691249611844267 / 2 ^ 48" 5864062014805339]
    by (simp add: fixedTimeStep64_value)
  have q11: "round64 (5864062014805339 / 2 ^ 46 - fixedTimeStep64) = 293203100740267 / 2 ^ 42"
    using round64_nearest [OF ulp64_above_one, of 6 "5864062014805339 / 2 ^ 46 - 4691249611844267 / 2 ^ 48" 4691249611844272]
    by (simp add: fixedTimeStep64_value)
  have q12: "round64 (293203100740267 / 2 ^ 42 - fixedTimeStep64) = 3518437208883205 / 2 ^ 46"
    using round64_tie [OF ulp64_above_one, of 5 "293203100740267 / 2 ^ 42 - 4691249611844267 / 2 ^ 48" 7036874417766410]
    by (simp add: fixedTimeStep64_value)
  have q13: "round64 (3518437208883205 / 2 ^ 46 - fixedTimeStep64) = 1172812402961069 / 2 ^ 45"
    using round64_tie [OF ulp64_above_one, of 5 "3518437208883205 / 2 ^ 46 - 4691249611844267 / 2 ^ 48" 4691249611844276]
    by (simp add: fixedTimeStep64_value)
  have q14: "round64 (1172812402961069 / 2 ^ 45 - fixedTimeStep64) = 4691249611844285 / 2 ^ 48"
    using round64_nearest [OF ulp64_above_one, of 4 "1172812402961069 / 2 ^ 45 - 4691249611844267 / 2 ^ 48" 4691249611844285]
    by (simp add: fixedTimeStep64_value)
  have q15: "round64 (4691249611844285 / 2 ^ 48 - fixedTimeStep64) = 9 / 2 ^ 47"
    using round64_nearest [OF ulp64_below_one, of 44 "4691249611844285 / 2 ^ 48 - 4691249611844267 / 2 ^ 48" 5066549580791808]
    by (simp add: fixedTimeStep64_value)
  have "drain64 (B (4691249611844267 / 2 ^ 44) 2) = drain64 (B (8796093022208001 / 2 ^ 45) 3)"
    using drain64_continue [of "B (4691249611844267 / 2 ^ 44) 2" "4691249611844267 / 2 ^ 44", OF _ _ q0]
    by (simp add: B_def fixedTimeStep64_value eval_nat_numeral)
  also have "\<dots> = drain64 (B (2052421705181867 / 2 ^ 43) 4)"
    using drain64_continue [of "B (8796093022208001 / 2 ^ 45) 3" "8796093022208001 / 2 ^ 45", OF _ _ q1]
    by (simp add: B_def fixedTimeStep64_value eval_nat_numeral)
  also have "\<dots> = drain64 (B (7623280619246935 / 2 ^ 45) 5)"
    using drain64_continue [of "B (2052421705181867 / 2 ^ 43) 4" "2052421705181867 / 2 ^ 43", OF _ _ q2]
    by (simp add: B_def fixedTimeStep64_value eval_nat_numeral)
  also have "\<dots> = drain64 (B (3518437208883201 / 2 ^ 44) 6)"
    using drain64_continue [of "B (7623280619246935 / 2 ^ 45) 5" "7623280619246935 / 2 ^ 45", OF _ _ q3]
    by (simp add: B_def fixedTimeStep64_value eval_nat_numeral)
  also have "\<dots> = drain64 (B (6450468216285869 / 2 ^ 45) 7)"
    using drain64_continue [of "B (3518437208883201 / 2 ^ 44) 6" "3518437208883201 / 2 ^ 44", OF _ _ q4]
    by (simp add: B_def fixedTimeStep64_value eval_nat_numeral)
  also have "\<dots> = drain64 (B (733007751850667 / 2 ^ 42) 8)"
    using drain64_continue [of "B (6450468216285869 / 2 ^ 45) 7" "6450468216285869 / 2 ^ 45", OF _ _ q5]
    by (simp add: B_def fixedTimeStep64_value eval_nat_numeral)
  also have "\<dots> = drain64 (B (5277655813324803 / 2 ^ 45) 9)"
    using drain64_continue [of "B (733007751850667 / 2 ^ 42) 8" "733007751850667 / 2 ^ 42", OF _ _ q6]
    by (simp add: B_def fixedTimeStep64_value eval_nat_numeral)
  also have "\<dots> = drain64 (B (2345624805922135 / 2 ^ 44) 10)"
    using drain64_continue [of "B (5277655813324803 / 2 ^ 45) 9" "5277655813324803 / 2 ^ 45", OF _ _ q7]
    by (simp add: B_def fixedTimeStep64_value eval_nat_numeral)
  also have "\<dots> = drain64 (B (8209686820727473 / 2 ^ 46) 11)"
    using drain64_continue [of "B (2345624805922135 / 2 ^ 44) 10" "2345624805922135 / 2 ^ 44", OF _ _ q8]
    by (simp add: B_def fixedTimeStep64_value eval_nat_numeral)
  also have "\<dots> = drain64 (B (3518437208883203 / 2 ^ 45) 12)"
    using drain64_continue [of "B (8209686820727473 / 2 ^ 46) 11" "8209686820727473 / 2 ^ 46", OF _ _ q9]
    by (simp add: B_def fixedTimeStep64_value eval_nat_numeral)
  also have "\<dots> = drain64 (B (5864062014805339 / 2 ^ 46) 13)"
    using drain64_continue [of "B (3518437208883203 / 2 ^ 45) 12" "3518437208883203 / 2 ^ 45", OF _ _ q10]
    by (simp add: B_def fixedTimeStep64_value eval_nat_numeral)
  also have "\<dots> = drain64 (B (293203100740267 / 2 ^ 42) 14)"
    using drain64_continue [of "B (5864062014805339 / 2 ^ 46) 13" "5864062014805339 / 2 ^ 46", OF _ _ q11]
    by (simp add: B_def fixedTimeStep64_value eval_nat_numeral)
  also have "\<dots> = drain64 (B (3518437208883205 / 2 ^ 46) 15)"
    using drain64_continue [of "B (293203100740267 / 2 ^ 42) 14" "293203100740267 / 2 ^ 42", OF _ _ q12]
    by (simp add: B_def fixedTimeStep64_value eval_nat_numeral)
  also have "\<dots> = drain64 (B (1172812402961069 / 2 ^ 45) 16)"
    using drain64_continue [of "B (3518437208883205 / 2 ^ 46) 15" "3518437208883205 / 2 ^ 46", OF _ _ q13]
    by (simp add: B_def fixedTimeStep64_value eval_nat_numeral)
  also have "\<dots> = drain64 (B (4691249611844285 / 2 ^ 48) 17)"
    using drain64_continue [of "B (1172812402961069 / 2 ^ 45) 16" "1172812402961069 / 2 ^ 45", OF _ _ q14]
    by (simp add: B_def fixedTimeStep64_value eval_nat_numeral)
  also have "\<dots> = drain64 (B (9 / 2 ^ 47) 18)"
    using drain64_continue [of "B (4691249611844285 / 2 ^ 48) 17" "4691249611844285 / 2 ^ 48", OF _ _ q15]
    by (simp add: B_def fixedTimeStep64_value eval_nat_numeral)
  also have "\<dots> = Some (B (9 / 2 ^ 47) 18)"
    by (rule drain64_stop) (simp add: B_def fixedTimeStep64_value)
  finally have d: "drain64 (B (4691249611844267 / 2 ^ 44) 2) = Some (B (9 / 2 ^ 47) 18)" by simp
  have "gameLoop64
     \<lparr>isRunning = True, isPaused = False, lastTime = 50,
       accumulator = 4691249611844265 / 2 ^ 48, frameCount = 1, fps = 0, fpsUpdateTime = 0,
       fpsFrameCount = 1, frameTime = 50, updateCalls = 2\<rparr> 1050
      = map_option (\<lambda>g4. updatePerformanceMetrics g4 250)
          (drain64 (B (round64 (4691249611844265 / 2 ^ 48 + 250)) 2))"
    by (simp add: gameLoop64_unfold updateFPSCounter64_def round64_numeral maxDeltaTime_def
        Let_def B_def eval_nat_numeral)
  then have "gameLoop64
     \<lparr>isRunning = True, isPaused = False, lastTime = 50,
       accumulator = 4691249611844265 / 2 ^ 48, frameCount = 1, fps = 0, fpsUpdateTime = 0,
       fpsFrameCount = 1, frameTime = 50, updateCalls = 2\<rparr> 1050
      = map_option (\<lambda>g4. updatePerformanceMetrics g4 250) (Some (B (9 / 2 ^ 47) 18))"
    by (simp only: acc2 d)
  then show ?thesis by (simp add: B_def updatePerformanceMetrics_def)
qed


lemma gameLoop64_clamped_delta:
  assumes "maxDeltaTime < currentTime - lastTime g"
  shows "min (round64 (currentTime - lastTime g)) maxDeltaTime = 250"
proof -
  from assms have "250 \<le> round64 (currentTime - lastTime g)"
    by (intro round64_ge_250) (simp add: maxDeltaTime_def)
  then show ?thesis by (simp add: maxDeltaTime_def)
qed

lemma bound_formula_value: "\<lfloor>round64 (round64 (250 + fixedTimeStep64) / fixedTimeStep64)\<rfloor> = 16"
proof -
  have f1: "round64 (250 + fixedTimeStep64) = 4691249611844267 / 2 ^ 44"
    using round64_nearest [OF ulp64_above_one, of 8 "250 + 4691249611844267 / 2 ^ 48" 4691249611844267]
    by (simp add: fixedTimeStep64_value)
  have "round64 (250 + fixedTimeStep64) / fixedTimeStep64 = 16"
    by (simp only: f1) (simp add: fixedTimeStep64_value)
  then show ?thesis by (simp add: round64_numeral)
qed

text \<open>
  Claim C3, in binary64 arithmetic. In a frame of a running game whose elapsed time
  \<open>currentTime - lastTime\<close> exceeds \<open>maxDeltaTime = 250\<close>, \<open>gameLoop\<close> is the draining loop
  started on the accumulator plus 250 (rounded), followed by the metrics update with
  250 as the frame time: the elapsed time added to the accumulator is exactly 250,
  whatever the accumulator was. When the accumulator starts the frame in
  \<open>[0, fixedTimeStep)\<close>, the frame returns, and \<open>update\<close> has been called at least 14 and
  at most 16 times in it; the accumulator it leaves is the one it entered the loop
  with, \<open>round64 (accumulator + 250)\<close>, after that many rounded subtractions of the
  step, and lies in \<open>[0, fixedTimeStep)\<close>. The bound of the claim,
  \<open>floor ((250 + fixedTimeStep) / fixedTimeStep)\<close>, evaluates to 16 in binary64
  arithmetic. The bound is attained: the theorem after this one runs a frame at
  time 50 (2 calls) and then a frame at time 1050 (16 calls).
\<close>

theorem gameLoop64_bounded_steps:
  assumes "isRunning g" and "maxDeltaTime < currentTime - lastTime g"
  shows "gameLoop64 g currentTime =
           map_option (\<lambda>g4. updatePerformanceMetrics g4 250)
             (drain64 ((updateFPSCounter64 (g\<lparr>lastTime := currentTime\<rparr>) currentTime)
                \<lparr>accumulator := round64 (accumulator g + 250)\<rparr>))
       \<and> (0 \<le> accumulator g \<and> accumulator g < fixedTimeStep64 \<longrightarrow>
            (\<exists>g'. gameLoop64 g currentTime = Some g'
               \<and> frameTime g' = 250
               \<and> updateCalls g + 14 \<le> updateCalls g' \<and> updateCalls g' \<le> updateCalls g + 16
               \<and> accumulator g' =
                   ((\<lambda>a. round64 (a - fixedTimeStep64)) ^^ (updateCalls g' - updateCalls g))
                     (round64 (accumulator g + 250))
               \<and> 0 \<le> accumulator g' \<and> accumulator g' < fixedTimeStep64))
       \<and> \<lfloor>round64 (round64 (250 + fixedTimeStep64) / fixedTimeStep64)\<rfloor> = 16"
proof -
  let ?g3 = "(updateFPSCounter64 (g\<lparr>lastTime := currentTime\<rparr>) currentTime)
                \<lparr>accumulator := round64 (accumulator g + 250)\<rparr>"
  have loop: "gameLoop64 g currentTime =
      map_option (\<lambda>g4. updatePerformanceMetrics g4 250) (drain64 ?g3)"
    by (simp only: gameLoop64_unfold [OF assms(1)] gameLoop64_clamped_delta [OF assms(2)])
  have steps: "\<exists>g'. gameLoop64 g currentTime = Some g'
               \<and> frameTime g' = 250
               \<and> updateCalls g + 14 \<le> updateCalls g' \<and> updateCalls g' \<le> updateCalls g + 16
               \<and> accumulator g' =
                   ((\<lambda>a. round64 (a - fixedTimeStep64)) ^^ (updateCalls g' - updateCalls g))
                     (round64 (accumulator g + 250))
               \<and> 0 \<le> accumulator g' \<and> accumulator g' < fixedTimeStep64"
    if lo: "0 \<le> accumulator g" and hi: "accumulator g < fixedTimeStep64"
  proof -
    define A where "A = round64 (accumulator g + 250)"
    have a3: "accumulator ?g3 = A" by (simp add: A_def)
    have c3: "updateCalls ?g3 = updateCalls g" by (simp add: updateFPSCounter64_def Let_def)
    have "\<bar>accumulator g + 250\<bar> < 512" using lo hi fixedTimeStep64_bounds(2) by simp
    then have err: "\<bar>A - (accumulator g + 250)\<bar> \<le> 1 / 2 ^ 44"
      unfolding A_def by (rule round64_error_small)
    have tiny: "(1::real) / 2 ^ 44 \<le> 1" by simp
    have A_lo: "249 \<le> A" using err tiny lo by linarith
    have A_hi: "A \<le> 268" using err tiny hi fixedTimeStep64_bounds(2) by linarith
    have A_nn: "0 \<le> A" unfolding A_def using lo by (intro round64_nonneg) simp
    have small: "accumulator ?g3 < 512" using A_hi by (simp only: a3)
    have "accumulator ?g3 \<le> 16 * real (16::nat) + 16" using A_hi unfolding a3 by simp
    from drain64_terminates [OF this small] obtain g4 where
      run: "drain64 ?g3 = Some g4" and ub: "updateCalls g4 \<le> updateCalls g + 16"
      by (auto simp only: c3)
    define k where "k = updateCalls g4 - updateCalls g"
    note res = drain64_result [OF run, unfolded a3 c3, folded k_def]
    note below = res [THEN conjunct1]
    note mono = res [THEN conjunct2, THEN conjunct1]
    note iter = res [THEN conjunct2, THEN conjunct2]
    note con = drain64_conserves [OF run small, unfolded a3 c3, folded k_def]
    note cons = con [THEN conjunct1]
    have nn: "0 \<le> accumulator g4" using con A_nn by blast
    have k16: "k \<le> 16" using ub by (simp add: k_def)
    have k14: "14 \<le> k"
    proof (rule ccontr)
      assume "\<not> 14 \<le> k"
      then have k13: "real k \<le> 13" by simp
      then have "real k * fixedTimeStep64 \<le> 13 * fixedTimeStep64"
        using fixedTimeStep64_bounds(1) by (intro mult_right_mono) simp_all
      moreover have "real k / 2 ^ 44 \<le> 13 / 2 ^ 44" using k13 by (intro divide_right_mono) simp_all
      moreover have "(13::real) / 2 ^ 44 \<le> 1" by simp
      ultimately show False
        using cons below A_lo fixedTimeStep64_bounds(2) by linarith
    qed
    let ?g' = "updatePerformanceMetrics g4 250"
    have r1: "gameLoop64 g currentTime = Some ?g'"
      by (simp only: loop run option.map)
    have r2: "frameTime ?g' = 250" by (simp add: updatePerformanceMetrics_def)
    have r3: "updateCalls ?g' = updateCalls g4" by (simp add: updatePerformanceMetrics_def)
    have r4: "accumulator ?g' = accumulator g4" by (simp add: updatePerformanceMetrics_def)
    have lb: "updateCalls g + 14 \<le> updateCalls g4" using k14 mono by (simp add: k_def)
    note it = iter [unfolded k_def A_def]
    have "gameLoop64 g currentTime = Some ?g'
               \<and> frameTime ?g' = 250
               \<and> updateCalls g + 14 \<le> updateCalls ?g' \<and> updateCalls ?g' \<le> updateCalls g + 16
               \<and> accumulator ?g' =
                   ((\<lambda>a. round64 (a - fixedTimeStep64)) ^^ (updateCalls ?g' - updateCalls g))
                     (round64 (accumulator g + 250))
               \<and> 0 \<le> accumulator ?g' \<and> accumulator ?g' < fixedTimeStep64"
      unfolding r3 r4 using r1 r2 lb ub it nn below by (intro conjI) assumption+
    then show ?thesis by (rule exI)
  qed
  show ?thesis
  proof (intro conjI impI)
    show "gameLoop64 g currentTime =
        map_option (\<lambda>g4. updatePerformanceMetrics g4 250) (drain64 ?g3)"
      by (rule loop)
  next
    assume b: "0 \<le> accumulator g \<and> accumulator g < fixedTimeStep64"
    show "\<exists>g'. gameLoop64 g currentTime = Some g'
               \<and> frameTime g' = 250
               \<and> updateCalls g + 14 \<le> updateCalls g' \<and> updateCalls g' \<le> updateCalls g + 16
               \<and> accumulator g' =
                   ((\<lambda>a. round64 (a - fixedTimeStep64)) ^^ (updateCalls g' - updateCalls g))
                     (round64 (accumulator g + 250))
               \<and> 0 \<le> accumulator g' \<and> accumulator g' < fixedTimeStep64"
      by (rule steps [OF b [THEN conjunct1] b [THEN conjunct2]])
  next
    show "\<lfloor>round64 (round64 (250 + fixedTimeStep64) / fixedTimeStep64)\<rfloor> = 16"
      by (rule bound_formula_value)
  qed
qed

theorem gameLoop64_bounded_steps_witness:
  "isRunning 
     \<lparr>isRunning = True, isPaused = False, lastTime = 50,
       accumulator = 4691249611844265 / 2 ^ 48, frameCount = 1, fps = 0, fpsUpdateTime = 0,
       fpsFrameCount = 1, frameTime = 50, updateCalls = 2\<rparr>
   \<and> maxDeltaTime < 1050 - lastTime 
     \<lparr>isRunning = True, isPaused = False, lastTime = 50,
       accumulator = 4691249611844265 / 2 ^ 48, frameCount = 1, fps = 0, fpsUpdateTime = 0,
       fpsFrameCount = 1, frameTime = 50, updateCalls = 2\<rparr>
   \<and> 0 \<le> accumulator 
     \<lparr>isRunning = True, isPaused = False, lastTime = 50,
       accumulator = 4691249611844265 / 2 ^ 48, frameCount = 1, fps = 0, fpsUpdateTime = 0,
       fpsFrameCount = 1, frameTime = 50, updateCalls = 2\<rparr>
   \<and> accumulator 
     \<lparr>isRunning = True, isPaused = False, lastTime = 50,
       accumulator = 4691249611844265 / 2 ^ 48, frameCount = 1, fps = 0, fpsUpdateTime = 0,
       fpsFrameCount = 1, frameTime = 50, updateCalls = 2\<rparr> < fixedTimeStep64
   \<and> gameLoop64 
     \<lparr>isRunning = True, isPaused = False, lastTime = 0, accumulator = 0,
       frameCount = 0, fps = 0, fpsUpdateTime = 0, fpsFrameCount = 0, frameTime = 0,
       updateCalls = 0\<rparr> 50 = Some 
     \<lparr>isRunning = True, isPaused = False, lastTime = 50,
       accumulator = 4691249611844265 / 2 ^ 48, frameCount = 1, fps = 0, fpsUpdateTime = 0,
       fpsFrameCount = 1, frameTime = 50, updateCalls = 2\<rparr>
   \<and> gameLoop64 
     \<lparr>isRunning = True, isPaused = False, lastTime = 50,
       accumulator = 4691249611844265 / 2 ^ 48, frameCount = 1, fps = 0, fpsUpdateTime = 0,
       fpsFrameCount = 1, frameTime = 50, updateCalls = 2\<rparr> 1050 = Some 
     \<lparr>isRunning = True, isPaused = False, lastTime = 1050,
       accumulator = 9 / 2 ^ 47, frameCount = 2, fps = 2, fpsUpdateTime = 1050,
       fpsFrameCount = 0, frameTime = 250, updateCalls = 18\<rparr>
   \<and> updateCalls 
     \<lparr>isRunning = True, isPaused = False, lastTime = 50,
       accumulator = 4691249611844265 / 2 ^ 48, frameCount = 1, fps = 0, fpsUpdateTime = 0,
       fpsFrameCount = 1, frameTime = 50, updateCalls = 2\<rparr> = updateCalls 
     \<lparr>isRunning = True, isPaused = False, lastTime = 0, accumulator = 0,
       frameCount = 0, fps = 0, fpsUpdateTime = 0, fpsFrameCount = 0, frameTime = 0,
       updateCalls = 0\<rparr> + 2
   \<and> updateCalls 
     \<lparr>isRunning = True, isPaused = False, lastTime = 1050,
       accumulator = 9 / 2 ^ 47, frameCount = 2, fps = 2, fpsUpdateTime = 1050,
       fpsFrameCount = 0, frameTime = 250, updateCalls = 18\<rparr> = updateCalls 
     \<lparr>isRunning = True, isPaused = False, lastTime = 50,
       accumulator = 4691249611844265 / 2 ^ 48, frameCount = 1, fps = 0, fpsUpdateTime = 0,
       fpsFrameCount = 1, frameTime = 50, updateCalls = 2\<rparr> + 16
   \<and> accumulator 
     \<lparr>isRunning = True, isPaused = False, lastTime = 1050,
       accumulator = 9 / 2 ^ 47, frameCount = 2, fps = 2, fpsUpdateTime = 1050,
       fpsFrameCount = 0, frameTime = 250, updateCalls = 18\<rparr> =
       ((\<lambda>a. round64 (a - fixedTimeStep64)) ^^ 16) (round64 (accumulator 
     \<lparr>isRunning = True, isPaused = False, lastTime = 50,
       accumulator = 4691249611844265 / 2 ^ 48, frameCount = 1, fps = 0, fpsUpdateTime = 0,
       fpsFrameCount = 1, frameTime = 50, updateCalls = 2\<rparr> + 250))"
proof -
  define F0 :: Game where "F0 = 
     \<lparr>isRunning = True, isPaused = False, lastTime = 0, accumulator = 0,
       frameCount = 0, fps = 0, fpsUpdateTime = 0, fpsFrameCount = 0, frameTime = 0,
       updateCalls = 0\<rparr>"
  define F1 :: Game where "F1 = 
     \<lparr>isRunning = True, isPaused = False, lastTime = 50,
       accumulator = 4691249611844265 / 2 ^ 48, frameCount = 1, fps = 0, fpsUpdateTime = 0,
       fpsFrameCount = 1, frameTime = 50, updateCalls = 2\<rparr>"
  define F2 :: Game where "F2 = 
     \<lparr>isRunning = True, isPaused = False, lastTime = 1050,
       accumulator = 9 / 2 ^ 47, frameCount = 2, fps = 2, fpsUpdateTime = 1050,
       fpsFrameCount = 0, frameTime = 250, updateCalls = 18\<rparr>"
  have h: "isRunning F1" "maxDeltaTime < 1050 - lastTime F1"
    and r: "0 \<le> accumulator F1 \<and> accumulator F1 < fixedTimeStep64"
    and c: "updateCalls F1 = updateCalls F0 + 2" "updateCalls F2 = updateCalls F1 + 16"
    by (simp_all add: F0_def F1_def F2_def maxDeltaTime_def fixedTimeStep64_value)
  have f1: "gameLoop64 F0 50 = Some F1" unfolding F0_def F1_def by (rule gameLoop64_first_frame)
  have f2: "gameLoop64 F1 1050 = Some F2" unfolding F1_def F2_def by (rule gameLoop64_second_frame)
  from gameLoop64_bounded_steps [OF h] r obtain g' where
    "gameLoop64 F1 1050 = Some g'"
    and "accumulator g' =
       ((\<lambda>a. round64 (a - fixedTimeStep64)) ^^ (updateCalls g' - updateCalls F1))
          (round64 (accumulator F1 + 250))"
    by blast
  with f2 have "accumulator F2 =
       ((\<lambda>a. round64 (a - fixedTimeStep64)) ^^ (updateCalls F2 - updateCalls F1))
          (round64 (accumulator F1 + 250))"
    by simp
  moreover have "updateCalls F2 - updateCalls F1 = 16" using c(2) by simp
  ultimately have "accumulator F2 =
       ((\<lambda>a. round64 (a - fixedTimeStep64)) ^^ 16) (round64 (accumulator F1 + 250))"
    by (simp only:)
  with h r c f1 f2 have "isRunning F1
   \<and> maxDeltaTime < 1050 - lastTime F1
   \<and> 0 \<le> accumulator F1
   \<and> accumulator F1 < fixedTimeStep64
   \<and> gameLoop64 F0 50 = Some F1
   \<and> gameLoop64 F1 1050 = Some F2
   \<and> updateCalls F1 = updateCalls F0 + 2
   \<and> updateCalls F2 = updateCalls F1 + 16
   \<and> accumulator F2 =
       ((\<lambda>a. round64 (a - fixedTimeStep64)) ^^ 16) (round64 (accumulator F1 + 250))"
    by (simp only: simp_thms)
  then show ?thesis unfolding F0_def F1_def F2_def .
qed

subsection \<open>InputHandler: joystick and gestures\<close>

lemma sqrt_2500: "sqrt 2500 = 50"
  using real_sqrt_abs [of 50] by simp

lemma sqrt_10000: "sqrt 10000 = 100"
  using real_sqrt_abs [of 100] by simp


lemma foldl_preserves:
  assumes "\<And>s a. P s \<Longrightarrow> P (f s a)" and "P s"
  shows "P (foldl f s as)"
  using assms(2) by (induction as arbitrary: s) (simp_all add: assms(1))

lemma touchStartOne_radius:
  "radius (virtualJoystick h) = 50 \<Longrightarrow> radius (virtualJoystick (touchStartOne rect now h touch)) = 50"
  by (simp add: touchStartOne_def activateVirtualJoystick_def Let_def)

lemma updateVirtualJoystick_radius:
  "radius (virtualJoystick (updateVirtualJoystick h px py)) = radius (virtualJoystick h)"
  by (simp add: updateVirtualJoystick_def Let_def)

lemma touchMoveOne_radius:
  "radius (virtualJoystick h) = 50 \<Longrightarrow> radius (virtualJoystick (touchMoveOne rect h touch)) = 50"
  by (simp add: touchMoveOne_def updateVirtualJoystick_radius Let_def split: option.splits)

lemma touchEndOne_radius:
  "radius (virtualJoystick (fst hg)) = 50 \<Longrightarrow>
   radius (virtualJoystick (fst (touchEndOne now hg touch))) = 50"
  by (simp add: touchEndOne_def deactivateVirtualJoystick_def Let_def split: option.splits prod.splits)

lemma dispatch_radius:
  "radius (virtualJoystick h) = 50 \<Longrightarrow> radius (virtualJoystick (dispatch h e)) = 50"
proof (cases e)
  case (TouchStart ts rect now)
  assume "radius (virtualJoystick h) = 50"
  then show ?thesis
    unfolding TouchStart dispatch.simps handleTouchStart_def
    by (rule foldl_preserves [where P = "\<lambda>h. radius (virtualJoystick h) = 50", rotated])
       (rule touchStartOne_radius)
next
  case (TouchMove ts rect)
  assume "radius (virtualJoystick h) = 50"
  then show ?thesis
    unfolding TouchMove dispatch.simps handleTouchMove_def
    by (rule foldl_preserves [where P = "\<lambda>h. radius (virtualJoystick h) = 50", rotated])
       (rule touchMoveOne_radius)
next
  case (TouchEnd ts now)
  assume "radius (virtualJoystick h) = 50"
  then have "radius (virtualJoystick (fst (h, []::Gesture list))) = 50" by simp
  then show ?thesis
    unfolding TouchEnd dispatch.simps handleTouchEnd_def
    by (rule foldl_preserves [where P = "\<lambda>hg. radius (virtualJoystick (fst hg)) = 50", rotated])
       (rule touchEndOne_radius)
qed

lemma runEvents_radius:
  "radius (virtualJoystick (runEvents (newInputHandler w) events)) = 50"
  unfolding runEvents_def
  by (rule foldl_preserves [where P = "\<lambda>h. radius (virtualJoystick h) = 50"])
     (simp_all add: dispatch_radius newInputHandler_def)

lemma scaled_norm:
  fixes dx dy r :: real
  assumes "0 < r"
  shows "sqrt (dx / r * (dx / r) + dy / r * (dy / r)) = sqrt (dx * dx + dy * dy) / r"
proof -
  have "dx / r * (dx / r) + dy / r * (dy / r) = (dx * dx + dy * dy) / (r * r)"
    by (simp add: add_divide_distrib)
  then show ?thesis using assms by (simp add: real_sqrt_divide real_sqrt_mult)
qed

lemma getVirtualJoystick_reading:
  assumes r: "0 < radius (virtualJoystick h)"
    and act: "active_out (getVirtualJoystick h)"
  shows "\<exists>dx dy. anchorOffset h = Some (dx, dy) \<and>
      (sqrt (dx * dx + dy * dy) \<le> radius (virtualJoystick h) \<longrightarrow>
         x_out (getVirtualJoystick h) = dx / radius (virtualJoystick h) \<and>
         y_out (getVirtualJoystick h) = dy / radius (virtualJoystick h)) \<and>
      (radius (virtualJoystick h) < sqrt (dx * dx + dy * dy) \<longrightarrow>
         x_out (getVirtualJoystick h) = dx / sqrt (dx * dx + dy * dy) \<and>
         y_out (getVirtualJoystick h) = dy / sqrt (dx * dx + dy * dy) \<and>
         sqrt (x_out (getVirtualJoystick h) * x_out (getVirtualJoystick h)
             + y_out (getVirtualJoystick h) * y_out (getVirtualJoystick h)) = 1) \<and>
      sqrt (x_out (getVirtualJoystick h) * x_out (getVirtualJoystick h)
          + y_out (getVirtualJoystick h) * y_out (getVirtualJoystick h)) \<le> 1"
proof -
  let ?vj = "virtualJoystick h"
  from act obtain st where st: "find (\<lambda>t. Some (id_touch t) = touchId ?vj) (touches h) = Some st"
    by (auto simp: getVirtualJoystick_def Let_def split: if_splits option.splits)
  from act have guard: "(\<not> active ?vj \<or> touchId ?vj = None \<or> touchId ?vj = Some 0) = False"
    by (auto simp: getVirtualJoystick_def Let_def split: if_splits)
  define dx where "dx = x_joy ?vj - startX st"
  define dy where "dy = y_joy ?vj - startY st"
  define d where "d = sqrt (dx * dx + dy * dy)"
  have off: "anchorOffset h = Some (dx, dy)"
    by (simp add: anchorOffset_def st dx_def dy_def)
  have xo: "x_out (getVirtualJoystick h) = (if d \<le> radius ?vj then dx / radius ?vj else dx / d)"
    by (simp only: getVirtualJoystick_def Let_def guard if_False st option.case
        JoystickReading.simps dx_def dy_def d_def)
  have yo: "y_out (getVirtualJoystick h) = (if d \<le> radius ?vj then dy / radius ?vj else dy / d)"
    by (simp only: getVirtualJoystick_def Let_def guard if_False st option.case
        JoystickReading.simps dx_def dy_def d_def)
  have inside: "sqrt (x_out (getVirtualJoystick h) * x_out (getVirtualJoystick h)
          + y_out (getVirtualJoystick h) * y_out (getVirtualJoystick h)) \<le> 1"
    if "d \<le> radius ?vj"
  proof -
    have "sqrt (dx / radius ?vj * (dx / radius ?vj) + dy / radius ?vj * (dy / radius ?vj))
        = d / radius ?vj"
      using r by (simp only: scaled_norm d_def)
    also have "\<dots> \<le> 1" using that r by simp
    finally show ?thesis using that by (simp only: xo yo if_True)
  qed
  have outside: "sqrt (x_out (getVirtualJoystick h) * x_out (getVirtualJoystick h)
          + y_out (getVirtualJoystick h) * y_out (getVirtualJoystick h)) = 1"
    if "radius ?vj < d"
  proof -
    have dpos: "0 < d" using that r by simp
    have "sqrt (dx / d * (dx / d) + dy / d * (dy / d)) = sqrt (dx * dx + dy * dy) / d"
      using dpos by (rule scaled_norm)
    also have "\<dots> = d / d" by (simp only: d_def)
    also have "\<dots> = 1" using dpos by simp
    finally show ?thesis using that by (simp only: xo yo not_le [symmetric] if_False)
  qed
  have "sqrt (x_out (getVirtualJoystick h) * x_out (getVirtualJoystick h)
          + y_out (getVirtualJoystick h) * y_out (getVirtualJoystick h)) \<le> 1"
    using inside outside by (cases "d \<le> radius ?vj") simp_all
  with off xo yo outside show ?thesis
    unfolding d_def by (intro exI [of _ dx] exI [of _ dy]) auto
qed

text \<open>
  Claim C1, evaluated: one touch starts at \<open>(10, 10)\<close> in the left half of a canvas
  of width 320 and moves to \<open>(60, 10)\<close> and then to \<open>(110, 10)\<close>. Each move is
  measured from the joystick's current position, which the previous move has
  overwritten, so the joystick follows the touch: it ends 100 from the start position
  of its touch while active, with radius 50.
\<close>

theorem joystick_leaves_radius:
  "active (virtualJoystick (runEvents (newInputHandler 320)
       [TouchStart [\<lparr>touch_identifier = 1, clientX = 10, clientY = 10\<rparr>] (0, 0) 0,
        TouchMove [\<lparr>touch_identifier = 1, clientX = 60, clientY = 10\<rparr>] (0, 0),
        TouchMove [\<lparr>touch_identifier = 1, clientX = 110, clientY = 10\<rparr>] (0, 0)]))
   \<and> radius (virtualJoystick (runEvents (newInputHandler 320)
       [TouchStart [\<lparr>touch_identifier = 1, clientX = 10, clientY = 10\<rparr>] (0, 0) 0,
        TouchMove [\<lparr>touch_identifier = 1, clientX = 60, clientY = 10\<rparr>] (0, 0),
        TouchMove [\<lparr>touch_identifier = 1, clientX = 110, clientY = 10\<rparr>] (0, 0)])) = 50
   \<and> anchorDistance (runEvents (newInputHandler 320)
       [TouchStart [\<lparr>touch_identifier = 1, clientX = 10, clientY = 10\<rparr>] (0, 0) 0,
        TouchMove [\<lparr>touch_identifier = 1, clientX = 60, clientY = 10\<rparr>] (0, 0),
        TouchMove [\<lparr>touch_identifier = 1, clientX = 110, clientY = 10\<rparr>] (0, 0)]) = Some 100"
  by (simp add: runEvents_def newInputHandler_def handleTouchStart_def handleTouchMove_def
      touchStartOne_def touchMoveOne_def activateVirtualJoystick_def updateVirtualJoystick_def
      anchorDistance_def anchorOffset_def Let_def sqrt_2500 sqrt_10000)




text \<open>
  Claim C9: in every state that the touch handlers produce from a new handler, if
  \<open>getVirtualJoystick\<close> reports \<open>active\<close> then the reported vector has length at most 1: an
  offset from the anchor within the radius (50) is divided by the radius, and a longer
  offset is divided by its own length, which gives a vector of length 1.
\<close>

theorem getVirtualJoystick_normalized:
  assumes "active_out (getVirtualJoystick (runEvents (newInputHandler w) events))"
  shows "\<exists>dx dy. anchorOffset (runEvents (newInputHandler w) events) = Some (dx, dy) \<and>
      (sqrt (dx * dx + dy * dy) \<le> 50 \<longrightarrow>
         x_out (getVirtualJoystick (runEvents (newInputHandler w) events)) = dx / 50 \<and>
         y_out (getVirtualJoystick (runEvents (newInputHandler w) events)) = dy / 50) \<and>
      (50 < sqrt (dx * dx + dy * dy) \<longrightarrow>
         x_out (getVirtualJoystick (runEvents (newInputHandler w) events))
           = dx / sqrt (dx * dx + dy * dy) \<and>
         y_out (getVirtualJoystick (runEvents (newInputHandler w) events))
           = dy / sqrt (dx * dx + dy * dy) \<and>
         sqrt (x_out (getVirtualJoystick (runEvents (newInputHandler w) events))
                 * x_out (getVirtualJoystick (runEvents (newInputHandler w) events))
             + y_out (getVirtualJoystick (runEvents (newInputHandler w) events))
                 * y_out (getVirtualJoystick (runEvents (newInputHandler w) events))) = 1) \<and>
      sqrt (x_out (getVirtualJoystick (runEvents (newInputHandler w) events))
              * x_out (getVirtualJoystick (runEvents (newInputHandler w) events))
          + y_out (getVirtualJoystick (runEvents (newInputHandler w) events))
              * y_out (getVirtualJoystick (runEvents (newInputHandler w) events))) \<le> 1"
  using getVirtualJoystick_reading [of "runEvents (newInputHandler w) events"] assms
  by (simp only: runEvents_radius)

theorem getVirtualJoystick_normalized_witness:
  "active_out (getVirtualJoystick (runEvents (newInputHandler 320)
       [TouchStart [\<lparr>touch_identifier = 1, clientX = 10, clientY = 10\<rparr>] (0, 0) 0,
        TouchMove [\<lparr>touch_identifier = 1, clientX = 40, clientY = 50\<rparr>] (0, 0)]))
   \<and> sqrt (x_out (getVirtualJoystick (runEvents (newInputHandler 320)
       [TouchStart [\<lparr>touch_identifier = 1, clientX = 10, clientY = 10\<rparr>] (0, 0) 0,
        TouchMove [\<lparr>touch_identifier = 1, clientX = 40, clientY = 50\<rparr>] (0, 0)]))
          * x_out (getVirtualJoystick (runEvents (newInputHandler 320)
       [TouchStart [\<lparr>touch_identifier = 1, clientX = 10, clientY = 10\<rparr>] (0, 0) 0,
        TouchMove [\<lparr>touch_identifier = 1, clientX = 40, clientY = 50\<rparr>] (0, 0)]))
      + y_out (getVirtualJoystick (runEvents (newInputHandler 320)
       [TouchStart [\<lparr>touch_identifier = 1, clientX = 10, clientY = 10\<rparr>] (0, 0) 0,
        TouchMove [\<lparr>touch_identifier = 1, clientX = 40, clientY = 50\<rparr>] (0, 0)]))
          * y_out (getVirtualJoystick (runEvents (newInputHandler 320)
       [TouchStart [\<lparr>touch_identifier = 1, clientX = 10, clientY = 10\<rparr>] (0, 0) 0,
        TouchMove [\<lparr>touch_identifier = 1, clientX = 40, clientY = 50\<rparr>] (0, 0)]))) \<le> 1"
proof -
  have act: "active_out (getVirtualJoystick (runEvents (newInputHandler 320)
       [TouchStart [\<lparr>touch_identifier = 1, clientX = 10, clientY = 10\<rparr>] (0, 0) 0,
        TouchMove [\<lparr>touch_identifier = 1, clientX = 40, clientY = 50\<rparr>] (0, 0)]))"
    by (simp add: runEvents_def newInputHandler_def handleTouchStart_def handleTouchMove_def
        touchStartOne_def touchMoveOne_def activateVirtualJoystick_def updateVirtualJoystick_def
        getVirtualJoystick_def Let_def sqrt_2500)
  from getVirtualJoystick_normalized [OF act] act show ?thesis by blast
qed

text \<open>
  Claim C10: whenever the joystick is active and bound to the touch identifier 0,
  \<open>getVirtualJoystick\<close> returns the inactive result \<open>{x: 0, y: 0, active: false}\<close>,
  whether or not that touch is still in the list of touches.
\<close>

theorem getVirtualJoystick_touch_zero:
  assumes "active (virtualJoystick h)" and "touchId (virtualJoystick h) = Some 0"
  shows "getVirtualJoystick h = \<lparr>x_out = 0, y_out = 0, active_out = False\<rparr>"
  using assms by (simp add: getVirtualJoystick_def)

theorem getVirtualJoystick_touch_zero_witness:
  "active (virtualJoystick (runEvents (newInputHandler 320)
       [TouchStart [\<lparr>touch_identifier = 0, clientX = 10, clientY = 10\<rparr>] (0, 0) 0]))
   \<and> touchId (virtualJoystick (runEvents (newInputHandler 320)
       [TouchStart [\<lparr>touch_identifier = 0, clientX = 10, clientY = 10\<rparr>] (0, 0) 0])) = Some 0
   \<and> map id_touch (touches (runEvents (newInputHandler 320)
       [TouchStart [\<lparr>touch_identifier = 0, clientX = 10, clientY = 10\<rparr>] (0, 0) 0])) = [0]
   \<and> getVirtualJoystick (runEvents (newInputHandler 320)
       [TouchStart [\<lparr>touch_identifier = 0, clientX = 10, clientY = 10\<rparr>] (0, 0) 0])
       = \<lparr>x_out = 0, y_out = 0, active_out = False\<rparr>"
proof -
  have pre: "active (virtualJoystick (runEvents (newInputHandler 320)
       [TouchStart [\<lparr>touch_identifier = 0, clientX = 10, clientY = 10\<rparr>] (0, 0) 0]))
   \<and> touchId (virtualJoystick (runEvents (newInputHandler 320)
       [TouchStart [\<lparr>touch_identifier = 0, clientX = 10, clientY = 10\<rparr>] (0, 0) 0])) = Some 0
   \<and> map id_touch (touches (runEvents (newInputHandler 320)
       [TouchStart [\<lparr>touch_identifier = 0, clientX = 10, clientY = 10\<rparr>] (0, 0) 0])) = [0]"
    by (simp add: runEvents_def newInputHandler_def handleTouchStart_def touchStartOne_def
        activateVirtualJoystick_def Let_def)
  with getVirtualJoystick_touch_zero [of "runEvents (newInputHandler 320)
       [TouchStart [\<lparr>touch_identifier = 0, clientX = 10, clientY = 10\<rparr>] (0, 0) 0]"]
  show ?thesis by blast
qed

subsection \<open>SceneManager: switching and removing scenes\<close>

lemma switchTo_active:
  "transitionActive sm \<Longrightarrow>
   switchTo sm sceneName ttype startedAt now =
     (sm, if sceneName \<in> dom (scenes sm) then Returned
          else Threw (Error (''Scene not found: '' @ sceneName)))"
  by (auto simp: switchTo_def split: option.splits)

lemma updateTransitionFrame_cases:
  "(snd (updateTransitionFrame sm f t st now)
      \<and> \<not> transitionActive (fst (updateTransitionFrame sm f t st now))
      \<and> currentScene (fst (updateTransitionFrame sm f t st now)) = Some t)
   \<or> (\<not> snd (updateTransitionFrame sm f t st now)
      \<and> transitionActive (fst (updateTransitionFrame sm f t st now)) = transitionActive sm
      \<and> currentScene (fst (updateTransitionFrame sm f t st now)) = currentScene sm)"
  by (simp add: updateTransitionFrame_def completeTransition_def Let_def split: option.splits)

lemma startTransition_cases:
  "(snd (startTransition sm t ty st now) = Returned
      \<and> \<not> transitionActive (fst (startTransition sm t ty st now))
      \<and> currentScene (fst (startTransition sm t ty st now)) = Some t)
   \<or> (snd (startTransition sm t ty st now) = Suspended (InTransition (currentScene sm) t st)
      \<and> transitionActive (fst (startTransition sm t ty st now)) = transitionActive sm
      \<and> currentScene (fst (startTransition sm t ty st now)) = currentScene sm)"
  using updateTransitionFrame_cases
    [of "sm\<lparr>transitionFromScene := currentScene sm, transitionToScene := Some t\<rparr>"
        "currentScene sm" t st now]
  by (auto simp: startTransition_def performTransition_def Let_def split: prod.splits)

lemma sceneStep_in_flight:
  assumes "transitionInFlight sys c target"
  shows "transitionInFlight (sceneStep sys e) c target
       \<or> (\<not> transitionActive (manager (sceneStep sys e))
          \<and> currentScene (manager (sceneStep sys e)) = Some target)"
proof (cases e)
  case (CallSwitchTo n ty st now)
  from assms have "transitionActive (manager sys)" by (simp add: transitionInFlight_def)
  then have "sceneStep sys e = sys"
    by (simp add: CallSwitchTo switchTo_active suspended_def)
  with assms show ?thesis by simp
next
  case (InitResolved i st now)
  show ?thesis
  proof (cases "\<exists>n ty. i = 0 \<and> pending sys = [AwaitingInit n target ty]")
    case True
    then obtain n ty where i: "i = 0" and p: "pending sys = [AwaitingInit n target ty]" by blast
    let ?sm = "(manager sys)\<lparr>initializedScenes := insert n (initializedScenes (manager sys))\<rparr>"
    have act: "transitionActive ?sm" and cur: "currentScene ?sm = c"
      using assms by (simp_all add: transitionInFlight_def)
    from startTransition_cases [of ?sm target ty st now] act cur
    show ?thesis
      by (auto simp: InitResolved i p switchToResume_def transitionInFlight_def suspended_def
          split: prod.splits)
  next
    case False
    with assms have "sceneStep sys e = sys"
      by (auto simp: InitResolved transitionInFlight_def)
    with assms show ?thesis by simp
  qed
next
  case (InitRejected i)
  from assms show ?thesis
    by (auto simp: InitRejected transitionInFlight_def)
next
  case (AnimationFrame i now)
  show ?thesis
  proof (cases "\<exists>st. i = 0 \<and> pending sys = [InTransition c target st]")
    case True
    then obtain st where i: "i = 0" and p: "pending sys = [InTransition c target st]" by blast
    have act: "transitionActive (manager sys)" and cur: "currentScene (manager sys) = c"
      using assms by (simp_all add: transitionInFlight_def)
    from updateTransitionFrame_cases [of "manager sys" c target st now] act cur
    show ?thesis
      by (auto simp: AnimationFrame i p transitionInFlight_def split: prod.splits)
  next
    case False
    with assms have "sceneStep sys e = sys"
      by (auto simp: AnimationFrame transitionInFlight_def)
    with assms show ?thesis by simp
  qed
qed

lemma activeThroughout_head: "activeThroughout sys es \<Longrightarrow> transitionActive (manager sys)"
  by (cases es) simp_all

lemma sceneRun_in_flight:
  "transitionInFlight sys c target \<Longrightarrow> activeThroughout sys es
   \<Longrightarrow> transitionInFlight (sceneRun sys es) c target"
proof (induction es arbitrary: sys)
  case Nil
  then show ?case by (simp add: sceneRun_def)
next
  case (Cons e es)
  from Cons.prems(2) have rest: "activeThroughout (sceneStep sys e) es" by simp
  then have "transitionActive (manager (sceneStep sys e))" by (rule activeThroughout_head)
  with sceneStep_in_flight [OF Cons.prems(1), of e]
  have "transitionInFlight (sceneStep sys e) c target" by blast
  from Cons.IH [OF this rest] show ?case by (simp add: sceneRun_def)
qed

lemma switchTo_starts_in_flight:
  assumes "\<not> transitionActive sm0" and "scenes sm0 name = Some scene"
    and "currentScene sm0 \<noteq> Some scene" and "switchTo sm0 name ty t0 t1 = (sm1, out)"
    and "transitionActive sm1"
  shows "transitionInFlight \<lparr>manager = sm1, pending = suspended out\<rparr> (currentScene sm0) scene"
proof (cases "name \<in> initializedScenes sm0")
  case False
  with assms show ?thesis
    by (auto simp: switchTo_def Let_def transitionInFlight_def suspended_def)
next
  case True
  let ?sm = "sm0\<lparr>transitionActive := True, transitionType := ty, transitionProgress := Some 0\<rparr>"
  from True assms(1-4) have eq: "startTransition ?sm scene ty t0 t1 = (sm1, out)"
    by (simp add: switchTo_def Let_def)
  from startTransition_cases [of ?sm scene ty t0 t1] assms(5) show ?thesis
    unfolding eq by (auto simp: transitionInFlight_def suspended_def)
qed

text \<open>
  Claim C5, as stated, says that every call of \<open>switchTo\<close> during a transition returns
  without throwing. The lookup of the scene comes before the test of
  \<open>transitionActive\<close>: with a transition in progress, a call with a name that is not
  registered throws, and leaves the manager unchanged.
\<close>

theorem switchTo_unregistered_counterexample:
  "transitionActive \<lparr>scenes = [''menu'' \<mapsto> 1, ''game'' \<mapsto> 2], initializedScenes = {''menu''},
        currentScene = Some 1, previousScene = None, transitionFromScene = None,
        transitionToScene = None, transitionActive = True, transitionProgress = Some 0,
        transitionType = FADE, transitionDuration = 500, sceneCalls = [Init 1, Init 2]\<rparr>
   \<and> switchTo \<lparr>scenes = [''menu'' \<mapsto> 1, ''game'' \<mapsto> 2], initializedScenes = {''menu''},
        currentScene = Some 1, previousScene = None, transitionFromScene = None,
        transitionToScene = None, transitionActive = True, transitionProgress = Some 0,
        transitionType = FADE, transitionDuration = 500, sceneCalls = [Init 1, Init 2]\<rparr> ''credits'' NONE 0 0
       = (\<lparr>scenes = [''menu'' \<mapsto> 1, ''game'' \<mapsto> 2], initializedScenes = {''menu''},
        currentScene = Some 1, previousScene = None, transitionFromScene = None,
        transitionToScene = None, transitionActive = True, transitionProgress = Some 0,
        transitionType = FADE, transitionDuration = 500, sceneCalls = [Init 1, Init 2]\<rparr>, Threw (Error ''Scene not found: credits''))"
  by (simp add: switchTo_def)

text \<open>
  Claim C5, amended: whenever a transition is in progress (\<open>transitionActive\<close> is true),
  a call of \<open>switchTo\<close> leaves all state of the manager unchanged; it returns as a no-op
  when the name is registered and throws \<open>Scene not found\<close> when it is not. And when a
  call of \<open>switchTo\<close> has started a transition from one scene to another, then along
  every run of further \<open>switchTo\<close> calls, resolutions or rejections of \<open>init()\<close> and
  animation frames during which the transition stays in progress, \<open>currentScene\<close>
  remains the scene from before the transition; an event that ends the transition
  makes the incoming scene the current one.
\<close>

theorem switchTo_while_transition_active:
  "(transitionActive sm \<longrightarrow>
      switchTo sm sceneName ttype startedAt now =
        (sm, if sceneName \<in> dom (scenes sm) then Returned
             else Threw (Error (''Scene not found: '' @ sceneName))))
   \<and> (\<not> transitionActive sm0 \<and> scenes sm0 target = Some scene
        \<and> currentScene sm0 \<noteq> Some scene
        \<and> switchTo sm0 target ty t0 t1 = (sm1, out)
        \<and> activeThroughout \<lparr>manager = sm1, pending = suspended out\<rparr> events
      \<longrightarrow>
        currentScene (manager (sceneRun \<lparr>manager = sm1, pending = suspended out\<rparr> events))
          = currentScene sm0
        \<and> (\<not> transitionActive (manager
               (sceneStep (sceneRun \<lparr>manager = sm1, pending = suspended out\<rparr> events) e))
           \<longrightarrow> currentScene (manager
               (sceneStep (sceneRun \<lparr>manager = sm1, pending = suspended out\<rparr> events) e))
               = Some scene))"
proof (intro conjI impI)
  assume "transitionActive sm"
  then show "switchTo sm sceneName ttype startedAt now =
      (sm, if sceneName \<in> dom (scenes sm) then Returned
           else Threw (Error (''Scene not found: '' @ sceneName)))"
    by (rule switchTo_active)
next
  let ?sys = "\<lparr>manager = sm1, pending = suspended out\<rparr>"
  assume a: "\<not> transitionActive sm0 \<and> scenes sm0 target = Some scene
        \<and> currentScene sm0 \<noteq> Some scene
        \<and> switchTo sm0 target ty t0 t1 = (sm1, out)
        \<and> activeThroughout ?sys events"
  then have "transitionActive (manager ?sys)" using activeThroughout_head [of ?sys events] by blast
  then have "transitionActive sm1" by simp
  with a have "transitionInFlight ?sys (currentScene sm0) scene"
    by (intro switchTo_starts_in_flight [of sm0 target scene ty t0 t1]) simp_all
  with a have fl: "transitionInFlight (sceneRun ?sys events) (currentScene sm0) scene"
    by (intro sceneRun_in_flight) simp_all
  then show "currentScene (manager (sceneRun ?sys events)) = currentScene sm0"
    by (simp add: transitionInFlight_def)
  assume "\<not> transitionActive (manager (sceneStep (sceneRun ?sys events) e))"
  with sceneStep_in_flight [OF fl, of e]
  show "currentScene (manager (sceneStep (sceneRun ?sys events) e)) = Some scene"
    by (auto simp: transitionInFlight_def)
qed

lemma demo_switchTo:
  "switchTo \<lparr>scenes = [''menu'' \<mapsto> 1, ''game'' \<mapsto> 2], initializedScenes = {''menu''},
        currentScene = Some 1, previousScene = None, transitionFromScene = None,
        transitionToScene = None, transitionActive = False, transitionProgress = Some 0,
        transitionType = NONE, transitionDuration = 500, sceneCalls = [Init 1]\<rparr> ''game'' FADE 0 0 = (\<lparr>scenes = [''menu'' \<mapsto> 1, ''game'' \<mapsto> 2], initializedScenes = {''menu''},
        currentScene = Some 1, previousScene = None, transitionFromScene = None,
        transitionToScene = None, transitionActive = True, transitionProgress = Some 0,
        transitionType = FADE, transitionDuration = 500, sceneCalls = [Init 1, Init 2]\<rparr>, Suspended (AwaitingInit ''game'' 2 FADE))"
  by (simp add: switchTo_def Let_def)

lemma demo_active:
  "activeThroughout \<lparr>manager = \<lparr>scenes = [''menu'' \<mapsto> 1, ''game'' \<mapsto> 2], initializedScenes = {''menu''},
        currentScene = Some 1, previousScene = None, transitionFromScene = None,
        transitionToScene = None, transitionActive = True, transitionProgress = Some 0,
        transitionType = FADE, transitionDuration = 500, sceneCalls = [Init 1, Init 2]\<rparr>,
       pending = suspended (Suspended (AwaitingInit ''game'' 2 FADE))\<rparr> [CallSwitchTo ''menu'' NONE 10 10, InitResolved 0 100 100, AnimationFrame 0 350]"
  by (simp add: switchTo_def suspended_def switchToResume_def startTransition_def
      performTransition_def updateTransitionFrame_def progressAt_def Let_def)

lemma demo_completes:
  "\<not> transitionActive (manager (sceneStep (sceneRun \<lparr>manager = \<lparr>scenes = [''menu'' \<mapsto> 1, ''game'' \<mapsto> 2], initializedScenes = {''menu''},
        currentScene = Some 1, previousScene = None, transitionFromScene = None,
        transitionToScene = None, transitionActive = True, transitionProgress = Some 0,
        transitionType = FADE, transitionDuration = 500, sceneCalls = [Init 1, Init 2]\<rparr>,
       pending = suspended (Suspended (AwaitingInit ''game'' 2 FADE))\<rparr> [CallSwitchTo ''menu'' NONE 10 10, InitResolved 0 100 100, AnimationFrame 0 350]) (AnimationFrame 0 600)))"
  by (simp add: sceneRun_def switchTo_def suspended_def switchToResume_def startTransition_def
      performTransition_def updateTransitionFrame_def progressAt_def completeTransition_def
      Let_def)

theorem switchTo_while_transition_active_witness:
  "transitionActive \<lparr>scenes = [''menu'' \<mapsto> 1, ''game'' \<mapsto> 2], initializedScenes = {''menu''},
        currentScene = Some 1, previousScene = None, transitionFromScene = None,
        transitionToScene = None, transitionActive = True, transitionProgress = Some 0,
        transitionType = FADE, transitionDuration = 500, sceneCalls = [Init 1, Init 2]\<rparr>
   \<and> switchTo \<lparr>scenes = [''menu'' \<mapsto> 1, ''game'' \<mapsto> 2], initializedScenes = {''menu''},
        currentScene = Some 1, previousScene = None, transitionFromScene = None,
        transitionToScene = None, transitionActive = True, transitionProgress = Some 0,
        transitionType = FADE, transitionDuration = 500, sceneCalls = [Init 1, Init 2]\<rparr> ''menu'' NONE 10 10 = (\<lparr>scenes = [''menu'' \<mapsto> 1, ''game'' \<mapsto> 2], initializedScenes = {''menu''},
        currentScene = Some 1, previousScene = None, transitionFromScene = None,
        transitionToScene = None, transitionActive = True, transitionProgress = Some 0,
        transitionType = FADE, transitionDuration = 500, sceneCalls = [Init 1, Init 2]\<rparr>, Returned)
   \<and> activeThroughout \<lparr>manager = \<lparr>scenes = [''menu'' \<mapsto> 1, ''game'' \<mapsto> 2], initializedScenes = {''menu''},
        currentScene = Some 1, previousScene = None, transitionFromScene = None,
        transitionToScene = None, transitionActive = True, transitionProgress = Some 0,
        transitionType = FADE, transitionDuration = 500, sceneCalls = [Init 1, Init 2]\<rparr>,
       pending = suspended (Suspended (AwaitingInit ''game'' 2 FADE))\<rparr> [CallSwitchTo ''menu'' NONE 10 10, InitResolved 0 100 100, AnimationFrame 0 350]
   \<and> currentScene (manager (sceneRun \<lparr>manager = \<lparr>scenes = [''menu'' \<mapsto> 1, ''game'' \<mapsto> 2], initializedScenes = {''menu''},
        currentScene = Some 1, previousScene = None, transitionFromScene = None,
        transitionToScene = None, transitionActive = True, transitionProgress = Some 0,
        transitionType = FADE, transitionDuration = 500, sceneCalls = [Init 1, Init 2]\<rparr>,
       pending = suspended (Suspended (AwaitingInit ''game'' 2 FADE))\<rparr> [CallSwitchTo ''menu'' NONE 10 10, InitResolved 0 100 100, AnimationFrame 0 350])) = Some 1
   \<and> \<not> transitionActive (manager (sceneStep (sceneRun \<lparr>manager = \<lparr>scenes = [''menu'' \<mapsto> 1, ''game'' \<mapsto> 2], initializedScenes = {''menu''},
        currentScene = Some 1, previousScene = None, transitionFromScene = None,
        transitionToScene = None, transitionActive = True, transitionProgress = Some 0,
        transitionType = FADE, transitionDuration = 500, sceneCalls = [Init 1, Init 2]\<rparr>,
       pending = suspended (Suspended (AwaitingInit ''game'' 2 FADE))\<rparr> [CallSwitchTo ''menu'' NONE 10 10, InitResolved 0 100 100, AnimationFrame 0 350]) (AnimationFrame 0 600)))
   \<and> currentScene (manager (sceneStep (sceneRun \<lparr>manager = \<lparr>scenes = [''menu'' \<mapsto> 1, ''game'' \<mapsto> 2], initializedScenes = {''menu''},
        currentScene = Some 1, previousScene = None, transitionFromScene = None,
        transitionToScene = None, transitionActive = True, transitionProgress = Some 0,
        transitionType = FADE, transitionDuration = 500, sceneCalls = [Init 1, Init 2]\<rparr>,
       pending = suspended (Suspended (AwaitingInit ''game'' 2 FADE))\<rparr> [CallSwitchTo ''menu'' NONE 10 10, InitResolved 0 100 100, AnimationFrame 0 350]) (AnimationFrame 0 600))) = Some 2"
proof -
  note inst = switchTo_while_transition_active
    [of "\<lparr>scenes = [''menu'' \<mapsto> 1, ''game'' \<mapsto> 2], initializedScenes = {''menu''},
        currentScene = Some 1, previousScene = None, transitionFromScene = None,
        transitionToScene = None, transitionActive = True, transitionProgress = Some 0,
        transitionType = FADE, transitionDuration = 500, sceneCalls = [Init 1, Init 2]\<rparr>" "''menu''" NONE 10 10
        "\<lparr>scenes = [''menu'' \<mapsto> 1, ''game'' \<mapsto> 2], initializedScenes = {''menu''},
        currentScene = Some 1, previousScene = None, transitionFromScene = None,
        transitionToScene = None, transitionActive = False, transitionProgress = Some 0,
        transitionType = NONE, transitionDuration = 500, sceneCalls = [Init 1]\<rparr>" "''game''" 2 FADE 0 0
        "\<lparr>scenes = [''menu'' \<mapsto> 1, ''game'' \<mapsto> 2], initializedScenes = {''menu''},
        currentScene = Some 1, previousScene = None, transitionFromScene = None,
        transitionToScene = None, transitionActive = True, transitionProgress = Some 0,
        transitionType = FADE, transitionDuration = 500, sceneCalls = [Init 1, Init 2]\<rparr>"
        "Suspended (AwaitingInit ''game'' 2 FADE)"
        "[CallSwitchTo ''menu'' NONE 10 10, InitResolved 0 100 100, AnimationFrame 0 350]" "AnimationFrame 0 600"]
  have noop: "switchTo \<lparr>scenes = [''menu'' \<mapsto> 1, ''game'' \<mapsto> 2], initializedScenes = {''menu''},
        currentScene = Some 1, previousScene = None, transitionFromScene = None,
        transitionToScene = None, transitionActive = True, transitionProgress = Some 0,
        transitionType = FADE, transitionDuration = 500, sceneCalls = [Init 1, Init 2]\<rparr> ''menu'' NONE 10 10
      = (\<lparr>scenes = [''menu'' \<mapsto> 1, ''game'' \<mapsto> 2], initializedScenes = {''menu''},
        currentScene = Some 1, previousScene = None, transitionFromScene = None,
        transitionToScene = None, transitionActive = True, transitionProgress = Some 0,
        transitionType = FADE, transitionDuration = 500, sceneCalls = [Init 1, Init 2]\<rparr>, Returned)"
    using inst [THEN conjunct1] by simp
  have "\<not> transitionActive \<lparr>scenes = [''menu'' \<mapsto> 1, ''game'' \<mapsto> 2], initializedScenes = {''menu''},
        currentScene = Some 1, previousScene = None, transitionFromScene = None,
        transitionToScene = None, transitionActive = False, transitionProgress = Some 0,
        transitionType = NONE, transitionDuration = 500, sceneCalls = [Init 1]\<rparr>
      \<and> scenes \<lparr>scenes = [''menu'' \<mapsto> 1, ''game'' \<mapsto> 2], initializedScenes = {''menu''},
        currentScene = Some 1, previousScene = None, transitionFromScene = None,
        transitionToScene = None, transitionActive = False, transitionProgress = Some 0,
        transitionType = NONE, transitionDuration = 500, sceneCalls = [Init 1]\<rparr> ''game'' = Some 2
      \<and> currentScene \<lparr>scenes = [''menu'' \<mapsto> 1, ''game'' \<mapsto> 2], initializedScenes = {''menu''},
        currentScene = Some 1, previousScene = None, transitionFromScene = None,
        transitionToScene = None, transitionActive = False, transitionProgress = Some 0,
        transitionType = NONE, transitionDuration = 500, sceneCalls = [Init 1]\<rparr> \<noteq> Some 2"
    by simp
  with demo_switchTo demo_active inst [THEN conjunct2] demo_completes
  show ?thesis using noop by (simp only: simp_thms SceneManager.simps)
qed

text \<open>
  Claim C8: when a registered name refers to the scene that is current,
  \<open>removeScene(name)\<close> throws and leaves the manager as it was: the scene is not
  destroyed (no call is added to \<open>sceneCalls\<close>) and the registry is unchanged.
\<close>

theorem removeScene_active_throws:
  assumes "scenes sm name = Some scene" and "currentScene sm = Some scene"
  shows "removeScene sm name = (sm, Some (Error (''Cannot remove active scene: '' @ name)))"
  using assms by (simp add: removeScene_def)

theorem removeScene_active_throws_witness:
  "scenes \<lparr>scenes = [''menu'' \<mapsto> 1, ''game'' \<mapsto> 2], initializedScenes = {''menu''},
        currentScene = Some 1, previousScene = None, transitionFromScene = None,
        transitionToScene = None, transitionActive = False, transitionProgress = Some 0,
        transitionType = NONE, transitionDuration = 500, sceneCalls = [Init 1]\<rparr> ''menu'' = Some 1
   \<and> currentScene \<lparr>scenes = [''menu'' \<mapsto> 1, ''game'' \<mapsto> 2], initializedScenes = {''menu''},
        currentScene = Some 1, previousScene = None, transitionFromScene = None,
        transitionToScene = None, transitionActive = False, transitionProgress = Some 0,
        transitionType = NONE, transitionDuration = 500, sceneCalls = [Init 1]\<rparr> = Some 1
   \<and> removeScene \<lparr>scenes = [''menu'' \<mapsto> 1, ''game'' \<mapsto> 2], initializedScenes = {''menu''},
        currentScene = Some 1, previousScene = None, transitionFromScene = None,
        transitionToScene = None, transitionActive = False, transitionProgress = Some 0,
        transitionType = NONE, transitionDuration = 500, sceneCalls = [Init 1]\<rparr> ''menu''
       = (\<lparr>scenes = [''menu'' \<mapsto> 1, ''game'' \<mapsto> 2], initializedScenes = {''menu''},
        currentScene = Some 1, previousScene = None, transitionFromScene = None,
        transitionToScene = None, transitionActive = False, transitionProgress = Some 0,
        transitionType = NONE, transitionDuration = 500, sceneCalls = [Init 1]\<rparr>, Some (Error ''Cannot remove active scene: menu''))"
  using removeScene_active_throws [of "\<lparr>scenes = [''menu'' \<mapsto> 1, ''game'' \<mapsto> 2], initializedScenes = {''menu''},
        currentScene = Some 1, previousScene = None, transitionFromScene = None,
        transitionToScene = None, transitionActive = False, transitionProgress = Some 0,
        transitionType = NONE, transitionDuration = 500, sceneCalls = [Init 1]\<rparr>" "''menu''" 1]
  by simp

subsection \<open>AssetManager: concurrent and batched loads\<close>

text \<open>
  Claim C4, evaluated: two calls of \<open>loadAsset\<close> with the same request on a new
  manager, the second before the load of the first has settled. The first call stores
  a pending asset (object 0) and the promise 0. The second call finds an asset that is
  not loaded, so it replaces the pending asset by a new object, calls
  \<open>loadAssetData\<close> again and overwrites the promise: two loads have been started.
\<close>

theorem loadAsset_twice_starts_two_loads:
  "loadAsset (newAssetManager :: nat AssetManager) \<lparr>id_request = ''a'', type_request = IMAGE, path_request = ''a.png''\<rparr>
     = (\<lparr>objects = [\<lparr>id_asset = ''a'', type_asset = IMAGE, path_asset = ''a.png'',
                        loaded = False, data = None, error_asset = None\<rparr>],
          assets = [''a'' \<mapsto> 0], totalAssets = 0, loadedAssets = 0, failedAssets = 0,
          loadPromises = [''a'' \<mapsto> 0], loadsStarted = 1\<rparr>,
        Awaiting 0 \<lparr>id_request = ''a'', type_request = IMAGE, path_request = ''a.png''\<rparr>)
   \<and> loadAsset \<lparr>objects = [\<lparr>id_asset = ''a'', type_asset = IMAGE, path_asset = ''a.png'',
                        loaded = False, data = (None :: nat option), error_asset = None\<rparr>],
          assets = [''a'' \<mapsto> 0], totalAssets = 0, loadedAssets = 0, failedAssets = 0,
          loadPromises = [''a'' \<mapsto> 0], loadsStarted = 1\<rparr> \<lparr>id_request = ''a'', type_request = IMAGE, path_request = ''a.png''\<rparr>
     = (\<lparr>objects = [\<lparr>id_asset = ''a'', type_asset = IMAGE, path_asset = ''a.png'',
                        loaded = False, data = None, error_asset = None\<rparr>,
                     \<lparr>id_asset = ''a'', type_asset = IMAGE, path_asset = ''a.png'',
                        loaded = False, data = None, error_asset = None\<rparr>],
          assets = [''a'' \<mapsto> 1], totalAssets = 0, loadedAssets = 0, failedAssets = 0,
          loadPromises = [''a'' \<mapsto> 1], loadsStarted = 2\<rparr>,
        Awaiting 1 \<lparr>id_request = ''a'', type_request = IMAGE, path_request = ''a.png''\<rparr>)"
  by (simp add: loadAsset_def isCached_def newAssetManager_def Let_def)

text \<open>
  Claim C7, evaluated. First run: a manager has loaded \<open>a\<close>; then \<open>loadAssets\<close> is called
  for \<open>a\<close>, \<open>b\<close> and \<open>c\<close>, the load of \<open>c\<close> fails and the load of \<open>b\<close> succeeds. The call
  for \<open>a\<close> returns the cached asset without counting it, where the other path of
  \<open>loadAsset\<close> increments \<open>loadedAssets\<close>: the promise resolves with two assets, both
  loaded, but \<open>getProgress\<close> reports \<open>loaded = 1\<close> and \<open>isFullyLoaded\<close> stays false
  although every request has settled. Second run: a load of \<open>d\<close> is pending when
  \<open>loadAssets\<close> is called for \<open>a\<close>, \<open>b\<close> and \<open>c\<close>, and settles before the batch does; its
  continuation increments the counter that the batch has reset, and \<open>getProgress\<close>
  reports \<open>loaded = 3\<close> for a batch with two loaded assets.
\<close>

theorem loadAssets_progress_miscounts:
  "loadAssetsResult (assetRun (newAssetSystem :: nat AssetSystem)
       [CallLoadAsset \<lparr>id_request = ''a'', type_request = IMAGE, path_request = ''a.png''\<rparr>,
        LoadSettles 0 (Inr 7),
        CallLoadAssets
          [\<lparr>id_request = ''a'', type_request = IMAGE, path_request = ''a.png''\<rparr>,
           \<lparr>id_request = ''b'', type_request = JSON, path_request = ''b.json''\<rparr>,
           \<lparr>id_request = ''c'', type_request = AUDIO, path_request = ''c.wav''\<rparr>],
        LoadSettles 3 (Inl ''Failed to load audio: c.wav''),
        LoadSettles 2 (Inr 8)]) 0 = Some [0, 1]
   \<and> map loaded (objects (assetManager (assetRun (newAssetSystem :: nat AssetSystem)
       [CallLoadAsset \<lparr>id_request = ''a'', type_request = IMAGE, path_request = ''a.png''\<rparr>,
        LoadSettles 0 (Inr 7),
        CallLoadAssets
          [\<lparr>id_request = ''a'', type_request = IMAGE, path_request = ''a.png''\<rparr>,
           \<lparr>id_request = ''b'', type_request = JSON, path_request = ''b.json''\<rparr>,
           \<lparr>id_request = ''c'', type_request = AUDIO, path_request = ''c.wav''\<rparr>],
        LoadSettles 3 (Inl ''Failed to load audio: c.wav''),
        LoadSettles 2 (Inr 8)]))) = [True, True, False]
   \<and> getProgress (assetManager (assetRun (newAssetSystem :: nat AssetSystem)
       [CallLoadAsset \<lparr>id_request = ''a'', type_request = IMAGE, path_request = ''a.png''\<rparr>,
        LoadSettles 0 (Inr 7),
        CallLoadAssets
          [\<lparr>id_request = ''a'', type_request = IMAGE, path_request = ''a.png''\<rparr>,
           \<lparr>id_request = ''b'', type_request = JSON, path_request = ''b.json''\<rparr>,
           \<lparr>id_request = ''c'', type_request = AUDIO, path_request = ''c.wav''\<rparr>],
        LoadSettles 3 (Inl ''Failed to load audio: c.wav''),
        LoadSettles 2 (Inr 8)]))
     = \<lparr>total_progress = 3, loaded_progress = 1, failed_progress = 1, percentage = 200 / 3\<rparr>
   \<and> \<not> isFullyLoaded (assetManager (assetRun (newAssetSystem :: nat AssetSystem)
       [CallLoadAsset \<lparr>id_request = ''a'', type_request = IMAGE, path_request = ''a.png''\<rparr>,
        LoadSettles 0 (Inr 7),
        CallLoadAssets
          [\<lparr>id_request = ''a'', type_request = IMAGE, path_request = ''a.png''\<rparr>,
           \<lparr>id_request = ''b'', type_request = JSON, path_request = ''b.json''\<rparr>,
           \<lparr>id_request = ''c'', type_request = AUDIO, path_request = ''c.wav''\<rparr>],
        LoadSettles 3 (Inl ''Failed to load audio: c.wav''),
        LoadSettles 2 (Inr 8)]))
   \<and> loadAssetsResult (assetRun (newAssetSystem :: nat AssetSystem)
       [CallLoadAsset \<lparr>id_request = ''d'', type_request = IMAGE, path_request = ''d.png''\<rparr>,
        CallLoadAssets
          [\<lparr>id_request = ''a'', type_request = IMAGE, path_request = ''a.png''\<rparr>,
           \<lparr>id_request = ''b'', type_request = JSON, path_request = ''b.json''\<rparr>,
           \<lparr>id_request = ''c'', type_request = AUDIO, path_request = ''c.wav''\<rparr>],
        LoadSettles 0 (Inr 6),
        LoadSettles 1 (Inr 7),
        LoadSettles 3 (Inl ''Failed to load audio: c.wav''),
        LoadSettles 2 (Inr 8)]) 0 = Some [1, 2]
   \<and> getProgress (assetManager (assetRun (newAssetSystem :: nat AssetSystem)
       [CallLoadAsset \<lparr>id_request = ''d'', type_request = IMAGE, path_request = ''d.png''\<rparr>,
        CallLoadAssets
          [\<lparr>id_request = ''a'', type_request = IMAGE, path_request = ''a.png''\<rparr>,
           \<lparr>id_request = ''b'', type_request = JSON, path_request = ''b.json''\<rparr>,
           \<lparr>id_request = ''c'', type_request = AUDIO, path_request = ''c.wav''\<rparr>],
        LoadSettles 0 (Inr 6),
        LoadSettles 1 (Inr 7),
        LoadSettles 3 (Inl ''Failed to load audio: c.wav''),
        LoadSettles 2 (Inr 8)]))
     = \<lparr>total_progress = 3, loaded_progress = 3, failed_progress = 1, percentage = 100\<rparr>"
  by (simp add: assetRun_def newAssetSystem_def loadAssetsResult_def loadAssetsStart_def
      loadAsset_def loadAssetSettle_def isCached_def newAssetManager_def getProgress_def
      isFullyLoaded_def Let_def)

end
